theory Spec2Isabelle
  imports Complex_Main "HOL-Library.AList"
begin

section \<open>Python values\<close>

text \<open>
  Every value the client handles is a decoded JSON value: \<open>None\<close>, a bool, an int, a
  float, a str, a list or a dict with str keys. \<open>JNull\<close> is Python's \<open>None\<close>, which is
  also what \<open>dict.get\<close> returns for a missing key. A float is modelled by the rational
  number it denotes (the client never computes with one; it stores and compares them), so
  the literals \<open>NaN\<close> and \<open>Infinity\<close>, which are not JSON, are outside the model. A dict
  is an association list in insertion order, read with \<open>map_of\<close>.
\<close>

datatype json =
    JNull
  | JBool bool
  | JInt int
  | JFloat rat
  | JStr string
  | JArr "json list"
  | JObj "(string \<times> json) list"

datatype py_error =
    ValueError string
  | Exception json
  | AttributeError
  | TypeError
  | KeyError
  | UnicodeDecodeError
  | JSONDecodeError
  | RecursionError

text \<open>\<open>d.get(k)\<close> on a dict: the value, or \<open>None\<close> when the key is missing.\<close>

definition dict_get :: "(string \<times> json) list \<Rightarrow> string \<Rightarrow> json" where
  "dict_get d k = (case map_of d k of None \<Rightarrow> JNull | Some v \<Rightarrow> v)"

text \<open>\<open>d[k]\<close> on a dict raises \<open>KeyError\<close> when the key is missing.\<close>

definition dict_getitem :: "(string \<times> json) list \<Rightarrow> string \<Rightarrow> py_error + json" where
  "dict_getitem d k = (case map_of d k of None \<Rightarrow> Inl KeyError | Some v \<Rightarrow> Inr v)"

text \<open>\<open>x.get(k)\<close> on any value: only a dict has the method.\<close>

fun py_get :: "json \<Rightarrow> string \<Rightarrow> py_error + json" where
  "py_get (JObj d) k = Inr (dict_get d k)"
| "py_get _ k = Inl AttributeError"

text \<open>\<open>x.keys()\<close> on any value: only a dict has the method.\<close>

fun py_keys :: "json \<Rightarrow> py_error + string list" where
  "py_keys (JObj d) = Inr (remdups (map fst d))"
| "py_keys _ = Inl AttributeError"

text \<open>Truth value of a Python value, as tested by a conditional expression.\<close>

fun truthy :: "json \<Rightarrow> bool" where
  "truthy JNull = False"
| "truthy (JBool b) = b"
| "truthy (JInt i) = (i \<noteq> 0)"
| "truthy (JFloat r) = (r \<noteq> 0)"
| "truthy (JStr s) = (s \<noteq> [])"
| "truthy (JArr xs) = (xs \<noteq> [])"
| "truthy (JObj d) = (d \<noteq> [])"

section \<open>Result records\<close>

record SocialData =
  mentions :: json
  sentiment :: json
  relative_hype :: json

record Subreddit =
  mentions :: json
  sentiment :: json

record Reddit =
  posts :: SocialData
  comments :: SocialData
  subreddits :: "(string \<times> Subreddit) list option"

record TickerData =
  symbol :: json
  sentiment :: json
  AHI :: json
  RHI :: json
  SGP :: json

record QuoteData = TickerData +
  reddit_data :: Reddit
  tweets :: SocialData
  stocktwits_posts :: SocialData
  yahoo_finance_comments :: SocialData

text \<open>\<open>SocialData.__init__\<close>: three \<open>results.get\<close> calls on platform-prefixed keys.\<close>

fun SocialData_init :: "json \<Rightarrow> string \<Rightarrow> py_error + SocialData" where
  "SocialData_init (JObj d) platform =
     Inr \<lparr> SocialData.mentions = dict_get d (platform @ ''_mentions''),
           SocialData.sentiment = dict_get d (platform @ ''_sentiment''),
           SocialData.relative_hype = dict_get d (platform @ ''_relative_hype'') \<rparr>"
| "SocialData_init _ platform = Inl AttributeError"

text \<open>\<open>TickerData.__init__\<close>: the symbol as given, the four metrics by \<open>results.get\<close>.\<close>

fun TickerData_init :: "json \<Rightarrow> json \<Rightarrow> py_error + TickerData" where
  "TickerData_init symb (JObj d) =
     Inr \<lparr> symbol = symb,
           TickerData.sentiment = dict_get d ''sentiment'',
           AHI = dict_get d ''AHI'',
           RHI = dict_get d ''RHI'',
           SGP = dict_get d ''SGP'' \<rparr>"
| "TickerData_init symb _ = Inl AttributeError"

text \<open>\<open>x[k]\<close> with a str \<open>k\<close>: a dict looks the key up; nothing else takes a str index.\<close>

fun py_getitem :: "json \<Rightarrow> string \<Rightarrow> py_error + json" where
  "py_getitem (JObj d) k = dict_getitem d k"
| "py_getitem _ k = Inl TypeError"

text \<open>
  The dict comprehension of \<open>QuoteData.__init__\<close> over the names in
  \<open>mentions.keys() & sentiment.keys()\<close>. Python leaves the iteration order of the set
  open; the model takes the names in the order of the first dict. Equality of Python
  dicts does not depend on the order.
\<close>

fun subreddit_comprehension ::
  "json \<Rightarrow> json \<Rightarrow> string list \<Rightarrow> py_error + (string \<times> Subreddit) list" where
  "subreddit_comprehension ms ss [] = Inr []"
| "subreddit_comprehension ms ss (name # names) =
     (case py_getitem ms name of Inl e \<Rightarrow> Inl e | Inr m \<Rightarrow>
      (case py_getitem ss name of Inl e \<Rightarrow> Inl e | Inr s \<Rightarrow>
       (case subreddit_comprehension ms ss names of Inl e \<Rightarrow> Inl e | Inr rest \<Rightarrow>
          Inr ((name, \<lparr> Subreddit.mentions = m, Subreddit.sentiment = s \<rparr>) # rest))))"

text \<open>
  Lines 90 to 100 of \<open>QuoteData.__init__\<close>, on the dict \<open>results\<close>: \<open>None\<close> without a
  \<open>subreddits\<close> key; otherwise both sub-mappings are read with \<open>get\<close> and then asked
  for their \<open>keys()\<close>, which a \<open>None\<close> does not have.
\<close>

definition subreddits_processed ::
  "(string \<times> json) list \<Rightarrow> py_error + (string \<times> Subreddit) list option" where
  "subreddits_processed d =
     (if map_of d ''subreddits'' \<noteq> None then
        (let subs = dict_get d ''subreddits'' in
         case py_get subs ''reddit_subreddit_mentions'' of Inl e \<Rightarrow> Inl e | Inr ms \<Rightarrow>
         (case py_get subs ''reddit_subreddit_sentiment'' of Inl e \<Rightarrow> Inl e | Inr ss \<Rightarrow>
          (case py_keys ms of Inl e \<Rightarrow> Inl e | Inr mk \<Rightarrow>
           (case py_keys ss of Inl e \<Rightarrow> Inl e | Inr sk \<Rightarrow>
            (case subreddit_comprehension ms ss (filter (\<lambda>n. n \<in> set sk) mk) of
               Inl e \<Rightarrow> Inl e
             | Inr sp \<Rightarrow> Inr (Some sp))))))
      else Inr None)"

text \<open>
  \<open>QuoteData.__init__\<close>. \<open>super().__init__\<close> runs first and raises \<open>AttributeError\<close> on
  a \<open>results\<close> that is not a dict, so the rest sees a dict.
\<close>

fun QuoteData_init :: "json \<Rightarrow> json \<Rightarrow> py_error + QuoteData" where
  "QuoteData_init symb (JObj d) =
     (case TickerData_init symb (JObj d) of Inl e \<Rightarrow> Inl e | Inr base \<Rightarrow>
      (case SocialData_init (JObj d) ''tweet'' of Inl e \<Rightarrow> Inl e | Inr tw \<Rightarrow>
       (case SocialData_init (JObj d) ''stocktwits_post'' of Inl e \<Rightarrow> Inl e | Inr st \<Rightarrow>
        (case SocialData_init (JObj d) ''yahoo_finance_comment'' of Inl e \<Rightarrow> Inl e | Inr yf \<Rightarrow>
         (case subreddits_processed d of Inl e \<Rightarrow> Inl e | Inr sp \<Rightarrow>
          (case SocialData_init (JObj d) ''reddit_post'' of Inl e \<Rightarrow> Inl e | Inr rp \<Rightarrow>
           (case SocialData_init (JObj d) ''reddit_comment'' of Inl e \<Rightarrow> Inl e | Inr rc \<Rightarrow>
              Inr (TickerData.extend base
                     (QuoteData.fields
                        \<lparr> posts = rp, comments = rc, subreddits = sp \<rparr> tw st yf)))))))))"
| "QuoteData_init symb _ = Inl AttributeError"

section \<open>Python containers with hashed keys\<close>

text \<open>
  A dict or set hashes its keys and compares them with \<open>==\<close>: \<open>True\<close>, \<open>1\<close> and \<open>1.0\<close>
  are one key, a list or a dict is unhashable (\<open>TypeError\<close>). \<open>key_of\<close> gives the class
  of a value under that equality.
\<close>

datatype hkey = HNone | HNum rat | HStr string

fun key_of :: "json \<Rightarrow> hkey option" where
  "key_of JNull = Some HNone"
| "key_of (JBool b) = Some (HNum (if b then 1 else 0))"
| "key_of (JInt i) = Some (HNum (of_int i))"
| "key_of (JFloat r) = Some (HNum r)"
| "key_of (JStr s) = Some (HStr s)"
| "key_of (JArr xs) = None"
| "key_of (JObj d) = None"

type_synonym pydict = "(json \<times> json) list"

text \<open>
  \<open>d[k] = v\<close> on a dict in insertion order: an equal key keeps its place (and the key
  object first inserted) and gets the new value; a new key goes to the end.
\<close>

fun dict_store :: "pydict \<Rightarrow> json \<Rightarrow> json \<Rightarrow> pydict" where
  "dict_store [] k v = [(k, v)]"
| "dict_store ((k', v') # d) k v =
     (if key_of k' = key_of k then (k', v) # d else (k', v') # dict_store d k v)"

definition dict_setitem :: "pydict \<Rightarrow> json \<Rightarrow> json \<Rightarrow> py_error + pydict" where
  "dict_setitem d k v = (if key_of k = None then Inl TypeError else Inr (dict_store d k v))"

text \<open>Reading a dict at a key: the value stored under an equal key, if any.\<close>

fun dict_lookup :: "pydict \<Rightarrow> json \<Rightarrow> json option" where
  "dict_lookup [] k = None"
| "dict_lookup ((k', v') # d) k = (if key_of k' = key_of k then Some v' else dict_lookup d k)"

text \<open>\<open>set(xs)\<close>: the elements in order of first occurrence, one per key.\<close>

fun py_set :: "json list \<Rightarrow> json list \<Rightarrow> py_error + json list" where
  "py_set acc [] = Inr acc"
| "py_set acc (x # xs) =
     (if key_of x = None then Inl TypeError
      else if key_of x \<in> key_of ` set acc then py_set acc xs
      else py_set (acc @ [x]) xs)"

text \<open>
  Iterating over a value: a list gives its elements, a dict its keys, a str its
  characters; nothing else is iterable.
\<close>

fun py_iter :: "json \<Rightarrow> py_error + json list" where
  "py_iter (JArr xs) = Inr xs"
| "py_iter (JObj d) = Inr (map JStr (remdups (map fst d)))"
| "py_iter (JStr s) = Inr (map (\<lambda>c. JStr [c]) s)"
| "py_iter _ = Inl TypeError"

text \<open>\<open>sep.join(xs)\<close> on a list of str.\<close>

fun str_join :: "string \<Rightarrow> string list \<Rightarrow> string" where
  "str_join sep [] = []"
| "str_join sep [x] = x"
| "str_join sep (x # y # ys) = x @ sep @ str_join sep (y # ys)"

section \<open>The API client\<close>

text \<open>
  The transport is outside the repository. A response is what the client reads of it:
  \<open>response.content.decode("utf-8")\<close> (\<open>None\<close> when the bytes are not UTF-8 and the
  call raises \<open>UnicodeDecodeError\<close>), \<open>response.text\<close>, \<open>response.json()\<close> (the decoded
  value, or the exception the decoder raises: \<open>JSONDecodeError\<close> on a text that is not
  JSON, or another one, such as \<open>RecursionError\<close> on a text nested too deep) and
  \<open>response.ok\<close>. The world holds the service, a function from the URL and the
  parameters to the response, and the log of the requests sent.
\<close>

record response =
  content_decode :: "string option"
  text_body :: string
  json_body :: "py_error + json"
  ok :: bool

record world =
  server :: "string \<Rightarrow> (string \<times> json) list \<Rightarrow> response"
  sent :: "(string \<times> (string \<times> json) list) list"

definition requests_get ::
  "string \<Rightarrow> (string \<times> json) list \<Rightarrow> world \<Rightarrow> response \<times> world" where
  "requests_get url params w = (server w url params, w\<lparr>sent := sent w @ [(url, params)]\<rparr>)"

record Sentipy =
  token :: json
  key :: json

definition base_url :: string where
  "base_url = ''https://api.sentimentinvestor.com/v4/''"

definition Sentipy_init :: "json \<Rightarrow> json \<Rightarrow> py_error + Sentipy" where
  "Sentipy_init tok k =
     (if tok = JNull \<or> k = JNull then
        Inl (ValueError (''Please provide a token and key - these can be obtained at '' @
                         ''https://sentimentinvestor.com/developer/dashboard''))
      else Inr \<lparr> token = tok, key = k \<rparr>)"

text \<open>
  The checks of \<open>__base_request\<close> on a response, in the order of the source: the bare
  strings, then the JSON decoding, then the HTTP status. The \<open>except\<close> clause catches
  \<open>JSONDecodeError\<close> only; any other exception of the decoder passes through.
\<close>

definition check_response :: "response \<Rightarrow> py_error + json" where
  "check_response r =
     (case content_decode r of
        None \<Rightarrow> Inl UnicodeDecodeError
      | Some body \<Rightarrow>
          if body = ''invalid_parameter'' \<or> body = ''incorrect_key'' then
            Inl (ValueError ''Incorrect key or token'')
          else
            (case json_body r of
               Inl e \<Rightarrow>
                 if e = JSONDecodeError then Inl (Exception (JStr (text_body r)))
                 else Inl e
             | Inr j \<Rightarrow>
                 if ok r then Inr j
                 else (case py_get j ''message'' of
                         Inl e \<Rightarrow> Inl e
                       | Inr m \<Rightarrow> Inl (Exception m))))"

text \<open>The parameters \<open>__base_request\<close> sends: the caller's, with the credentials stored.\<close>

definition request_params :: "Sentipy \<Rightarrow> (string \<times> json) list option \<Rightarrow> (string \<times> json) list" where
  "request_params self params =
     AList.update ''key'' (key self)
       (AList.update ''token'' (token self)
          (case params of None \<Rightarrow> [] | Some p \<Rightarrow> p))"

definition base_request ::
  "Sentipy \<Rightarrow> string \<Rightarrow> (string \<times> json) list option \<Rightarrow> world
     \<Rightarrow> (py_error + json) \<times> world" where
  "base_request self endpoint params w =
     (let url = base_url @ endpoint;
          (r, w') = requests_get url (request_params self params) w
      in (check_response r, w'))"

text \<open>
  The conditional expression every operation ends with:
  \<open>x if response.get("success") else None\<close>.
\<close>

definition if_success :: "json \<Rightarrow> py_error + 'a \<Rightarrow> py_error + 'a option" where
  "if_success resp x =
     (case py_get resp ''success'' of
        Inl e \<Rightarrow> Inl e
      | Inr s \<Rightarrow>
          if truthy s then (case x of Inl e \<Rightarrow> Inl e | Inr v \<Rightarrow> Inr (Some v))
          else Inr None)"

text \<open>\<open>TickerData(response.get("symbol"), response.get("results"))\<close> and its sibling.\<close>

definition ticker_of :: "json \<Rightarrow> py_error + TickerData" where
  "ticker_of resp =
     (case py_get resp ''symbol'' of Inl e \<Rightarrow> Inl e | Inr sy \<Rightarrow>
      (case py_get resp ''results'' of Inl e \<Rightarrow> Inl e | Inr res \<Rightarrow>
         TickerData_init sy res))"

definition quote_of :: "json \<Rightarrow> py_error + QuoteData" where
  "quote_of resp =
     (case py_get resp ''symbol'' of Inl e \<Rightarrow> Inl e | Inr sy \<Rightarrow>
      (case py_get resp ''results'' of Inl e \<Rightarrow> Inl e | Inr res \<Rightarrow>
         QuoteData_init sy res))"

text \<open>\<open>[TickerData(stock.get("symbol"), stock) for stock in ...]\<close>.\<close>

fun ticker_list :: "json list \<Rightarrow> py_error + TickerData list" where
  "ticker_list [] = Inr []"
| "ticker_list (stock # stocks) =
     (case py_get stock ''symbol'' of Inl e \<Rightarrow> Inl e | Inr sy \<Rightarrow>
      (case TickerData_init sy stock of Inl e \<Rightarrow> Inl e | Inr t \<Rightarrow>
       (case ticker_list stocks of Inl e \<Rightarrow> Inl e | Inr ts \<Rightarrow> Inr (t # ts))))"

definition tickers_of :: "json \<Rightarrow> py_error + TickerData list" where
  "tickers_of resp =
     (case py_get resp ''results'' of Inl e \<Rightarrow> Inl e | Inr res \<Rightarrow>
      (case py_iter res of Inl e \<Rightarrow> Inl e | Inr stocks \<Rightarrow> ticker_list stocks))"

text \<open>\<open>{dp.get("timestamp"): dp.get("data") for dp in ...}\<close>, from the dict built so far.\<close>

fun history_dict :: "pydict \<Rightarrow> json list \<Rightarrow> py_error + pydict" where
  "history_dict acc [] = Inr acc"
| "history_dict acc (dp # dps) =
     (case py_get dp ''timestamp'' of Inl e \<Rightarrow> Inl e | Inr t \<Rightarrow>
      (case py_get dp ''data'' of Inl e \<Rightarrow> Inl e | Inr v \<Rightarrow>
       (case dict_setitem acc t v of Inl e \<Rightarrow> Inl e | Inr acc' \<Rightarrow> history_dict acc' dps)))"

definition history_of :: "json \<Rightarrow> py_error + pydict" where
  "history_of resp =
     (case py_get resp ''results'' of Inl e \<Rightarrow> Inl e | Inr res \<Rightarrow>
      (case py_iter res of Inl e \<Rightarrow> Inl e | Inr dps \<Rightarrow> history_dict [] dps))"

definition stock_set_of :: "json \<Rightarrow> py_error + json list" where
  "stock_set_of resp =
     (case py_get resp ''results'' of Inl e \<Rightarrow> Inl e | Inr res \<Rightarrow>
      (case py_iter res of Inl e \<Rightarrow> Inl e | Inr xs \<Rightarrow> py_set [] xs))"

text \<open>
  An operation: the request, then the conditional expression on the decoded mapping.
  An exception of the request passes through.
\<close>

definition operation ::
  "Sentipy \<Rightarrow> string \<Rightarrow> (string \<times> json) list option \<Rightarrow> (json \<Rightarrow> py_error + 'a) \<Rightarrow> world
     \<Rightarrow> (py_error + 'a option) \<times> world" where
  "operation self endpoint params build w =
     (let (r, w') = base_request self endpoint params w
      in (case r of Inl e \<Rightarrow> Inl e | Inr resp \<Rightarrow> if_success resp (build resp), w'))"

definition parsed :: "Sentipy \<Rightarrow> string \<Rightarrow> world \<Rightarrow> (py_error + TickerData option) \<times> world" where
  "parsed self symb w =
     operation self ''parsed'' (Some [(''symbol'', JStr symb)]) ticker_of w"

definition raw :: "Sentipy \<Rightarrow> string \<Rightarrow> world \<Rightarrow> (py_error + QuoteData option) \<times> world" where
  "raw self symb w =
     operation self ''raw'' (Some [(''symbol'', JStr symb)]) quote_of w"

definition quote ::
  "Sentipy \<Rightarrow> string \<Rightarrow> bool \<Rightarrow> world \<Rightarrow> (py_error + QuoteData option) \<times> world" where
  "quote self symb enrich w =
     operation self ''quote'' (Some [(''symbol'', JStr symb), (''enrich'', JBool enrich)])
       quote_of w"

definition Sentipy_sort ::
  "Sentipy \<Rightarrow> string \<Rightarrow> int \<Rightarrow> world \<Rightarrow> (py_error + TickerData list option) \<times> world" where
  "Sentipy_sort self metric limit w =
     operation self ''sort'' (Some [(''metric'', JStr metric), (''limit'', JInt limit)])
       tickers_of w"

definition historical ::
  "Sentipy \<Rightarrow> string \<Rightarrow> string \<Rightarrow> int \<Rightarrow> int \<Rightarrow> world
     \<Rightarrow> (py_error + pydict option) \<times> world" where
  "historical self symb metric start end_time w =
     operation self ''historical''
       (Some [(''symbol'', JStr symb), (''metric'', JStr metric),
              (''start'', JInt start), (''end'', JInt end_time)])
       history_of w"

definition bulk ::
  "Sentipy \<Rightarrow> string list \<Rightarrow> bool \<Rightarrow> world
     \<Rightarrow> (py_error + TickerData list option) \<times> world" where
  "bulk self symbols enrich w =
     operation self ''bulk''
       (Some [(''symbols'', JStr (str_join '','' symbols)), (''enrich'', JBool enrich)])
       tickers_of w"

definition Sentipy_all ::
  "Sentipy \<Rightarrow> bool \<Rightarrow> world \<Rightarrow> (py_error + TickerData list option) \<times> world" where
  "Sentipy_all self enrich w =
     operation self ''all'' (Some [(''enrich'', JBool enrich)]) tickers_of w"

text \<open>
  \<open>supported\<close> returns \<open>response.get("result")\<close> as it is. Python has one \<open>None\<close> for a
  missing or null \<open>result\<close> and for the else branch; here they are \<open>Some JNull\<close> and
  \<open>None\<close>.
\<close>

definition supported ::
  "Sentipy \<Rightarrow> string \<Rightarrow> world \<Rightarrow> (py_error + json option) \<times> world" where
  "supported self symb w =
     operation self ''supported'' (Some [(''symbol'', JStr symb)])
       (\<lambda>resp. py_get resp ''result'') w"

definition all_stocks :: "Sentipy \<Rightarrow> world \<Rightarrow> (py_error + json list option) \<times> world" where
  "all_stocks self w = operation self ''all-stocks'' None stock_set_of w"

section \<open>Example inputs\<close>

text \<open>
  The mapping with \<open>mentions = {"a": 1, "b": 2}\<close> and \<open>sentiment = {"b": 0.5, "c": 0.1}\<close>.
\<close>

definition example_quote_fields :: "(string \<times> json) list" where
  "example_quote_fields =
     [(''subreddits'', JObj
        [(''reddit_subreddit_mentions'', JObj [(''a'', JInt 1), (''b'', JInt 2)]),
         (''reddit_subreddit_sentiment'',
            JObj [(''b'', JFloat (1 / 2)), (''c'', JFloat (1 / 10))])])]"

text \<open>
  A result mapping as the docstring of \<open>sort\<close> prints it: a \<open>subreddits\<close> entry that
  holds neither sub-mapping.
\<close>

definition example_plain_fields :: "(string \<times> json) list" where
  "example_plain_fields =
     [(''AHI'', JFloat (19 / 10)), (''subreddits'', JObj [(''symbol'', JStr ''AMC'')]),
      (''symbol'', JStr ''AMC''), (''tweet_mentions'', JInt 149)]"

text \<open>A client, and the world in which the service answers every request with \<open>r\<close>.\<close>

definition example_client :: Sentipy where
  "example_client = \<lparr> token = JStr ''my-very-secret-token'', key = JStr ''my-very-secret-key'' \<rparr>"

definition constant_world :: "response \<Rightarrow> world" where
  "constant_world r = \<lparr> server = (\<lambda>url params. r), sent = [] \<rparr>"

text \<open>
  Responses: a mapping with \<open>success\<close> false; the bare string for a wrong key; a page
  that is not JSON; a body that is not UTF-8; a success envelope with a symbol; one
  without.
\<close>

definition no_data_response :: response where
  \<open>no_data_response =
     \<lparr> content_decode = Some ''{"success": false}'',
       text_body = ''{"success": false}'',
       json_body = Inr (JObj [(''success'', JBool False)]),
       ok = True \<rparr>\<close>

definition incorrect_key_response :: response where
  "incorrect_key_response =
     \<lparr> content_decode = Some ''incorrect_key'',
       text_body = ''incorrect_key'',
       json_body = Inl JSONDecodeError,
       ok = True \<rparr>"

definition html_response :: response where
  "html_response =
     \<lparr> content_decode = Some ''<html>Bad Gateway</html>'',
       text_body = ''<html>Bad Gateway</html>'',
       json_body = Inl JSONDecodeError,
       ok = True \<rparr>"

definition undecodable_response :: response where
  "undecodable_response =
     \<lparr> content_decode = None,
       text_body = [CHR 0xFF],
       json_body = Inl JSONDecodeError,
       ok = True \<rparr>"

definition parsed_response :: response where
  \<open>parsed_response =
     \<lparr> content_decode = Some ''{"success": true, "symbol": "AAPL", "results": {"AHI": 0.5}}'',
       text_body = ''{"success": true, "symbol": "AAPL", "results": {"AHI": 0.5}}'',
       json_body = Inr (JObj [(''success'', JBool True), (''symbol'', JStr ''AAPL''),
                               (''results'', JObj [(''AHI'', JFloat (1 / 2))])]),
       ok = True \<rparr>\<close>

definition unnamed_response :: response where
  \<open>unnamed_response =
     \<lparr> content_decode = Some ''{"success": true, "results": {}}'',
       text_body = ''{"success": true, "results": {}}'',
       json_body = Inr (JObj [(''success'', JBool True), (''results'', JObj [])]),
       ok = True \<rparr>\<close>

text \<open>
  A service that has data for every symbol but \<open>SNTPY\<close>, and a response whose text is
  nested too deep for the decoder.
\<close>

definition sntpy_world :: world where
  "sntpy_world =
     \<lparr> server = (\<lambda>url params.
         if map_of params ''symbol'' = Some (JStr ''SNTPY'') then no_data_response
         else parsed_response),
       sent = [] \<rparr>"

definition deep_response :: response where
  "deep_response =
     \<lparr> content_decode = Some (CHR ''['' # replicate 99999 CHR ''[''),
       text_body = CHR ''['' # replicate 99999 CHR ''['',
       json_body = Inl RecursionError,
       ok = True \<rparr>"

text \<open>An enriched quote, with the subreddit breakdown of \<open>example_quote_fields\<close>.\<close>

definition enriched_response :: response where
  \<open>enriched_response =
     \<lparr> content_decode = Some ''{"success": true, "symbol": "TSLA", "results": {"subreddits": {"reddit_subreddit_mentions": {"a": 1, "b": 2}, "reddit_subreddit_sentiment": {"b": 0.5, "c": 0.1}}}}'',
       text_body = ''{"success": true, "symbol": "TSLA", "results": {"subreddits": {"reddit_subreddit_mentions": {"a": 1, "b": 2}, "reddit_subreddit_sentiment": {"b": 0.5, "c": 0.1}}}}'',
       json_body = Inr (JObj [(''success'', JBool True), (''symbol'', JStr ''TSLA''),
                              (''results'', JObj example_quote_fields)]),
       ok = True \<rparr>\<close>

text \<open>A ranking of two stocks, and a history of one data point.\<close>

definition sort_response :: response where
  \<open>sort_response =
     \<lparr> content_decode = Some ''{"success": true, "results": [{"symbol": "ET", "AHI": 2}, {"symbol": "AMC", "AHI": 1}]}'',
       text_body = ''{"success": true, "results": [{"symbol": "ET", "AHI": 2}, {"symbol": "AMC", "AHI": 1}]}'',
       json_body = Inr (JObj [(''success'', JBool True),
                     (''results'', JArr [JObj [(''symbol'', JStr ''ET''), (''AHI'', JInt 2)],
                                         JObj [(''symbol'', JStr ''AMC''), (''AHI'', JInt 1)]])]),
       ok = True \<rparr>\<close>

definition historical_response :: response where
  \<open>historical_response =
     \<lparr> content_decode = Some ''{"success": true, "results": [{"timestamp": 1618057166.5, "data": 5.9e-05}]}'',
       text_body = ''{"success": true, "results": [{"timestamp": 1618057166.5, "data": 5.9e-05}]}'',
       json_body = Inr (JObj [(''success'', JBool True),
                     (''results'', JArr [JObj [(''timestamp'', JFloat (3236114333 / 2)),
                                               (''data'', JFloat (59 / 1000000))]])]),
       ok = True \<rparr>\<close>

text \<open>A history of three data points, the third at the timestamp of the first.\<close>

definition repeated_response :: response where
  \<open>repeated_response =
     \<lparr> content_decode = Some ''{"success": true, "results": [{"timestamp": 1618057166.5, "data": 5.9e-05}, {"timestamp": 1618336173.5, "data": 0.0004}, {"timestamp": 1618057166.5, "data": 0.0005}]}'',
       text_body = ''{"success": true, "results": [{"timestamp": 1618057166.5, "data": 5.9e-05}, {"timestamp": 1618336173.5, "data": 0.0004}, {"timestamp": 1618057166.5, "data": 0.0005}]}'',
       json_body = Inr (JObj [(''success'', JBool True),
                     (''results'', JArr [JObj [(''timestamp'', JFloat (3236114333 / 2)),
                                               (''data'', JFloat (59 / 1000000))],
                                         JObj [(''timestamp'', JFloat (3236672347 / 2)),
                                               (''data'', JFloat (1 / 2500))],
                                         JObj [(''timestamp'', JFloat (3236114333 / 2)),
                                               (''data'', JFloat (1 / 2000))]])]),
       ok = True \<rparr>\<close>

section \<open>The mapping from timestamps, as the specification words it\<close>

text \<open>
  The specification describes the result of \<open>historical\<close> as the mapping from each
  entry's timestamp to its data value in which a later entry with the same timestamp
  overwrites an earlier one: the value at a key is the data of the last entry whose
  timestamp equals the key. This is that reading, to be compared with \<open>history_dict\<close>.
\<close>

fun last_entry_data :: "json list \<Rightarrow> json \<Rightarrow> json option" where
  "last_entry_data [] k = None"
| "last_entry_data (dp # dps) k =
     (case last_entry_data dps k of
        Some v \<Rightarrow> Some v
      | None \<Rightarrow>
          (case dp of
             JObj e \<Rightarrow>
               if key_of (dict_get e ''timestamp'') = key_of k then Some (dict_get e ''data'')
               else None
           | _ \<Rightarrow> None))"

section \<open>The response mapper\<close>

subsection \<open>Social data\<close>

text \<open>
  C7. For every mapping \<open>d\<close> and every platform prefix \<open>p\<close>, building a \<open>SocialData\<close>
  succeeds; its \<open>mentions\<close> is the value of \<open>d\<close> at \<open>p + "_mentions"\<close> when that key
  exists and \<open>None\<close> otherwise, and likewise \<open>sentiment\<close> and \<open>relative_hype\<close>.
\<close>

theorem social_data_fields:
  "\<exists>sd. SocialData_init (JObj d) p = Inr sd \<and>
     SocialData.mentions sd =
       (case map_of d (p @ ''_mentions'') of Some v \<Rightarrow> v | None \<Rightarrow> JNull) \<and>
     SocialData.sentiment sd =
       (case map_of d (p @ ''_sentiment'') of Some v \<Rightarrow> v | None \<Rightarrow> JNull) \<and>
     SocialData.relative_hype sd =
       (case map_of d (p @ ''_relative_hype'') of Some v \<Rightarrow> v | None \<Rightarrow> JNull)"
  by (simp add: dict_get_def split: option.splits)

theorem social_data_fields_witness:
  "\<exists>sd. SocialData_init (JObj example_plain_fields) ''tweet'' = Inr sd \<and>
     SocialData.mentions sd = JInt 149 \<and>
     SocialData.sentiment sd = JNull \<and>
     SocialData.relative_hype sd = JNull"
  using social_data_fields [of example_plain_fields "''tweet''"]
  by (simp add: example_plain_fields_def)

subsection \<open>The subreddit breakdown\<close>

lemma comprehension_total:
  "set names \<subseteq> dom (map_of ms) \<inter> dom (map_of ss) \<Longrightarrow>
   subreddit_comprehension (JObj ms) (JObj ss) names =
     Inr (map (\<lambda>n. (n, \<lparr> Subreddit.mentions = the (map_of ms n),
                          Subreddit.sentiment = the (map_of ss n) \<rparr>)) names)"
  by (induction names) (auto simp: dict_getitem_def)

lemma map_of_tabulate:
  "map_of (map (\<lambda>n. (n, f n)) names) n = (if n \<in> set names then Some (f n) else None)"
  by (induction names) auto

lemma intersection_names:
  "set (filter (\<lambda>n. n \<in> set (remdups (map fst ss))) (remdups (map fst ms)))
     = dom (map_of ms) \<inter> dom (map_of ss)"
  by (auto simp: dom_map_of_conv_image_fst)

lemma subreddits_processed_both:
  assumes "map_of d ''subreddits'' = Some (JObj sub)"
    and "map_of sub ''reddit_subreddit_mentions'' = Some (JObj ms)"
    and "map_of sub ''reddit_subreddit_sentiment'' = Some (JObj ss)"
  shows "subreddits_processed d =
     Inr (Some (map (\<lambda>n. (n, \<lparr> Subreddit.mentions = the (map_of ms n),
                          Subreddit.sentiment = the (map_of ss n) \<rparr>))
            (filter (\<lambda>n. n \<in> set (remdups (map fst ss))) (remdups (map fst ms)))))"
proof -
  have "set (filter (\<lambda>n. n \<in> set (remdups (map fst ss))) (remdups (map fst ms)))
          \<subseteq> dom (map_of ms) \<inter> dom (map_of ss)"
    using intersection_names [of ss ms] by simp
  from comprehension_total [OF this] show ?thesis
    using assms by (simp add: subreddits_processed_def dict_get_def)
qed

lemma QuoteData_init_dict:
  "QuoteData_init symb (JObj d) =
     (case subreddits_processed d of Inl e \<Rightarrow> Inl e | Inr sp \<Rightarrow>
        Inr (TickerData.extend (projr (TickerData_init symb (JObj d)))
               (QuoteData.fields
                  \<lparr> posts = projr (SocialData_init (JObj d) ''reddit_post''),
                    comments = projr (SocialData_init (JObj d) ''reddit_comment''),
                    subreddits = sp \<rparr>
                  (projr (SocialData_init (JObj d) ''tweet''))
                  (projr (SocialData_init (JObj d) ''stocktwits_post''))
                  (projr (SocialData_init (JObj d) ''yahoo_finance_comment'')))))"
  by (simp split: sum.splits)

lemma subreddits_of_extend:
  "subreddits (reddit_data (TickerData.extend b (QuoteData.fields r tw st yf))) = subreddits r"
  by (simp add: TickerData.extend_def QuoteData.fields_def TickerData.defs QuoteData.defs)

lemma subreddits_processed_none:
  "map_of d ''subreddits'' = None \<Longrightarrow> subreddits_processed d = Inr None"
  by (simp add: subreddits_processed_def)

lemma QuoteData_init_subreddits:
  "subreddits_processed d = Inr sp \<Longrightarrow>
   \<exists>q. QuoteData_init symb (JObj d) = Inr q \<and> subreddits (reddit_data q) = sp"
  by (simp add: QuoteData_init_dict subreddits_of_extend)

declare QuoteData_init.simps [simp del]

lemma subreddits_absent:
  assumes "map_of d ''subreddits'' = None"
  shows "\<exists>q. QuoteData_init symb (JObj d) = Inr q \<and> subreddits (reddit_data q) = None"
  using QuoteData_init_subreddits [OF subreddits_processed_none [OF assms]] by blast

lemma subreddits_both:
  assumes "map_of d ''subreddits'' = Some (JObj sub)"
    and "map_of sub ''reddit_subreddit_mentions'' = Some (JObj ms)"
    and "map_of sub ''reddit_subreddit_sentiment'' = Some (JObj ss)"
  shows "\<exists>q sp. QuoteData_init symb (JObj d) = Inr q \<and>
         subreddits (reddit_data q) = Some sp \<and>
         distinct (map fst sp) \<and>
         set (map fst sp) = dom (map_of ms) \<inter> dom (map_of ss) \<and>
         (\<forall>n. map_of sp n =
            (case (map_of ms n, map_of ss n) of
               (Some m, Some s) \<Rightarrow>
                 Some \<lparr> Subreddit.mentions = m, Subreddit.sentiment = s \<rparr>
             | _ \<Rightarrow> None))"
proof -
  define names where
    "names = filter (\<lambda>n. n \<in> set (remdups (map fst ss))) (remdups (map fst ms))"
  define sp where
    "sp = map (\<lambda>n. (n, \<lparr> Subreddit.mentions = the (map_of ms n),
                          Subreddit.sentiment = the (map_of ss n) \<rparr>)) names"
  have names: "set names = dom (map_of ms) \<inter> dom (map_of ss)"
    unfolding names_def by (rule intersection_names)
  have fst_sp: "map fst sp = names"
    by (simp add: sp_def comp_def)
  have "subreddits_processed d = Inr (Some sp)"
    using subreddits_processed_both [OF assms] by (simp add: sp_def names_def)
  then obtain q where q: "QuoteData_init symb (JObj d) = Inr q"
    "subreddits (reddit_data q) = Some sp"
    using QuoteData_init_subreddits by blast
  have d: "distinct (map fst sp)"
    by (simp add: fst_sp names_def)
  have s: "set (map fst sp) = dom (map_of ms) \<inter> dom (map_of ss)"
    using fst_sp names by simp
  have l: "map_of sp n =
            (case (map_of ms n, map_of ss n) of
               (Some m, Some s) \<Rightarrow>
                 Some \<lparr> Subreddit.mentions = m, Subreddit.sentiment = s \<rparr>
             | _ \<Rightarrow> None)" for n
  proof (cases "n \<in> set names")
    case True
    then obtain m s where "map_of ms n = Some m" "map_of ss n = Some s"
      using names by auto
    with True show ?thesis by (simp add: sp_def map_of_tabulate)
  next
    case False
    then have "map_of ms n = None \<or> map_of ss n = None"
      using names by auto
    with False show ?thesis
      by (auto simp: sp_def map_of_tabulate split: option.splits)
  qed
  from q d s l show ?thesis by blast
qed

text \<open>
  C1. Without a \<open>subreddits\<close> key the \<open>subreddits\<close> field of the reddit breakdown is
  \<open>None\<close>. With a \<open>subreddits\<close> mapping that holds the mappings
  \<open>reddit_subreddit_mentions\<close> and \<open>reddit_subreddit_sentiment\<close>, the field is a dict
  whose keys are the names present in both, each once, and whose value at a name is the
  \<open>Subreddit\<close> of that name's entries in the two mappings; a name present in only one of
  them has no entry.
\<close>

theorem subreddits_intersection:
  "(map_of d ''subreddits'' = None \<longrightarrow>
      (\<exists>q. QuoteData_init symb (JObj d) = Inr q \<and> subreddits (reddit_data q) = None)) \<and>
   (map_of d ''subreddits'' = Some (JObj sub) \<and>
    map_of sub ''reddit_subreddit_mentions'' = Some (JObj ms) \<and>
    map_of sub ''reddit_subreddit_sentiment'' = Some (JObj ss) \<longrightarrow>
      (\<exists>q sp. QuoteData_init symb (JObj d) = Inr q \<and>
         subreddits (reddit_data q) = Some sp \<and>
         distinct (map fst sp) \<and>
         set (map fst sp) = dom (map_of ms) \<inter> dom (map_of ss) \<and>
         (\<forall>n. map_of sp n =
            (case (map_of ms n, map_of ss n) of
               (Some m, Some s) \<Rightarrow>
                 Some \<lparr> Subreddit.mentions = m, Subreddit.sentiment = s \<rparr>
             | _ \<Rightarrow> None))))"
  using subreddits_absent [of d symb] subreddits_both [of d sub ms ss symb] by blast

lemma distinct_set_singleton:
  "distinct xs \<Longrightarrow> set xs = {x} \<Longrightarrow> xs = [x]"
proof (cases xs)
  case Nil
  assume "set xs = {x}"
  with Nil show ?thesis by simp
next
  case (Cons y ys)
  assume d: "distinct xs" and s: "set xs = {x}"
  from s Cons have y: "y = x" by auto
  from s Cons have "set ys \<subseteq> {x}" by auto
  moreover from d Cons y have "x \<notin> set ys" by simp
  ultimately have "ys = []" by (cases ys) auto
  with Cons y show ?thesis by simp
qed

theorem subreddits_intersection_witness:
  "(\<exists>q. QuoteData_init (JStr ''TSLA'') (JObj example_quote_fields) = Inr q \<and>
       subreddits (reddit_data q) =
         Some [(''b'', \<lparr> Subreddit.mentions = JInt 2, Subreddit.sentiment = JFloat (1 / 2) \<rparr>)]) \<and>
   (\<exists>q. QuoteData_init (JStr ''TSLA'') (JObj []) = Inr q \<and> subreddits (reddit_data q) = None)"
proof
  let ?ms = "[(''a'', JInt 1), (''b'', JInt 2)]"
  let ?ss = "[(''b'', JFloat (1 / 2)), (''c'', JFloat (1 / 10))]"
  let ?sub = "[(''reddit_subreddit_mentions'', JObj ?ms), (''reddit_subreddit_sentiment'', JObj ?ss)]"
  obtain q sp where q: "QuoteData_init (JStr ''TSLA'') (JObj example_quote_fields) = Inr q"
    and sp: "subreddits (reddit_data q) = Some sp"
    and d: "distinct (map fst sp)"
    and k: "set (map fst sp) = dom (map_of ?ms) \<inter> dom (map_of ?ss)"
    and l: "\<And>n. map_of sp n =
            (case (map_of ?ms n, map_of ?ss n) of
               (Some m, Some s) \<Rightarrow>
                 Some \<lparr> Subreddit.mentions = m, Subreddit.sentiment = s \<rparr>
             | _ \<Rightarrow> None)"
    using subreddits_intersection
      [where d = example_quote_fields and sub = ?sub and ms = ?ms and ss = ?ss
         and symb = "JStr ''TSLA''"]
    by (auto simp: example_quote_fields_def)
  have "set (map fst sp) = {''b''}"
    using k by auto
  with d have "map fst sp = [''b'']"
    by (rule distinct_set_singleton)
  then obtain v where v: "sp = [(''b'', v)]"
    by (cases sp) auto
  have "map_of sp ''b'' = Some \<lparr> Subreddit.mentions = JInt 2, Subreddit.sentiment = JFloat (1 / 2) \<rparr>"
    using l [of "''b''"] by simp
  with v have "sp = [(''b'', \<lparr> Subreddit.mentions = JInt 2, Subreddit.sentiment = JFloat (1 / 2) \<rparr>)]"
    by simp
  with q sp show "\<exists>q. QuoteData_init (JStr ''TSLA'') (JObj example_quote_fields) = Inr q \<and>
       subreddits (reddit_data q) =
         Some [(''b'', \<lparr> Subreddit.mentions = JInt 2, Subreddit.sentiment = JFloat (1 / 2) \<rparr>)]"
    by blast
next
  show "\<exists>q. QuoteData_init (JStr ''TSLA'') (JObj []) = Inr q \<and> subreddits (reddit_data q) = None"
    using subreddits_intersection [where d = "[]" and symb = "JStr ''TSLA''"] by simp
qed

subsection \<open>A subreddits mapping without its sub-mappings\<close>

text \<open>
  C2. Record construction is to degrade every missing key to \<open>None\<close>. For \<open>TickerData\<close>
  it does. \<open>QuoteData\<close> reads the two sub-mappings with \<open>get\<close>, which gives \<open>None\<close> for a
  missing one, and then calls \<open>keys()\<close> on the result: on the mapping that the docstring
  of \<open>sort\<close> prints, construction raises \<open>AttributeError\<close>.
\<close>

theorem quote_data_missing_submapping_raises:
  "QuoteData_init (JStr ''AMC'') (JObj example_plain_fields) = Inl AttributeError"
  by (simp add: QuoteData_init_dict example_plain_fields_def subreddits_processed_def dict_get_def)

lemma ticker_data_never_fails:
  "\<exists>t. TickerData_init symb (JObj d) = Inr t"
  by simp

section \<open>Requests and operations\<close>

subsection \<open>What a request returns and what it sends\<close>

lemma base_request_result:
  "fst (base_request self ep ps w) =
     check_response (server w (base_url @ ep) (request_params self ps))"
  by (simp add: base_request_def requests_get_def Let_def)

lemma base_request_world:
  "snd (base_request self ep ps w) =
     w\<lparr>sent := sent w @ [(base_url @ ep, request_params self ps)]\<rparr>"
  by (simp add: base_request_def requests_get_def Let_def)

lemma operation_result:
  "fst (operation self ep ps build w) =
     (case fst (base_request self ep ps w) of
        Inl e \<Rightarrow> Inl e
      | Inr resp \<Rightarrow> if_success resp (build resp))"
  by (simp add: operation_def split: prod.splits)

lemma operation_world:
  "snd (operation self ep ps build w) = snd (base_request self ep ps w)"
  by (simp add: operation_def split: prod.splits)

subsection \<open>A response without data\<close>

lemma if_success_false:
  "map_of env ''success'' = Some (JBool False) \<Longrightarrow> if_success (JObj env) x = Inr None"
  by (simp add: if_success_def dict_get_def)

lemma operation_no_data:
  assumes "map_of env ''success'' = Some (JBool False)"
    and "fst (base_request self ep ps w) = Inr (JObj env)"
  shows "fst (operation self ep ps build w) = Inr None"
  using assms by (simp add: operation_result if_success_false)

text \<open>
  C3. For each of the nine public operations: when its request passes the checks and
  decodes to a mapping whose \<open>success\<close> field is false, the operation returns \<open>None\<close>
  and raises nothing. The operations that return a list, a dict or a set on success
  return \<open>None\<close> here too, not an empty container. Nothing is assumed of what the
  service answers to any other request.
\<close>

theorem success_false_returns_none:
  assumes "map_of env ''success'' = Some (JBool False)"
  shows
    "(fst (base_request self ''parsed'' (Some [(''symbol'', JStr symb)]) w) = Inr (JObj env) \<longrightarrow>
        fst (parsed self symb w) = Inr None) \<and>
     (fst (base_request self ''raw'' (Some [(''symbol'', JStr symb)]) w) = Inr (JObj env) \<longrightarrow>
        fst (raw self symb w) = Inr None) \<and>
     (fst (base_request self ''quote''
             (Some [(''symbol'', JStr symb), (''enrich'', JBool enrich)]) w) = Inr (JObj env) \<longrightarrow>
        fst (quote self symb enrich w) = Inr None) \<and>
     (fst (base_request self ''sort''
             (Some [(''metric'', JStr metric), (''limit'', JInt limit)]) w) = Inr (JObj env) \<longrightarrow>
        fst (Sentipy_sort self metric limit w) = Inr None) \<and>
     (fst (base_request self ''historical''
             (Some [(''symbol'', JStr symb), (''metric'', JStr metric),
                    (''start'', JInt start), (''end'', JInt end_time)]) w) = Inr (JObj env) \<longrightarrow>
        fst (historical self symb metric start end_time w) = Inr None) \<and>
     (fst (base_request self ''bulk''
             (Some [(''symbols'', JStr (str_join '','' symbols)), (''enrich'', JBool enrich)]) w)
          = Inr (JObj env) \<longrightarrow>
        fst (bulk self symbols enrich w) = Inr None) \<and>
     (fst (base_request self ''all'' (Some [(''enrich'', JBool enrich)]) w) = Inr (JObj env) \<longrightarrow>
        fst (Sentipy_all self enrich w) = Inr None) \<and>
     (fst (base_request self ''supported'' (Some [(''symbol'', JStr symb)]) w) = Inr (JObj env) \<longrightarrow>
        fst (supported self symb w) = Inr None) \<and>
     (fst (base_request self ''all-stocks'' None w) = Inr (JObj env) \<longrightarrow>
        fst (all_stocks self w) = Inr None)"
  unfolding parsed_def raw_def quote_def Sentipy_sort_def historical_def bulk_def
    Sentipy_all_def supported_def all_stocks_def
  by (intro conjI impI operation_no_data [OF assms])

lemma sntpy_request:
  "map_of ps ''symbol'' = Some (JStr ''SNTPY'') \<Longrightarrow>
   fst (base_request example_client ep (Some ps) sntpy_world) =
     Inr (JObj [(''success'', JBool False)])"
  by (simp add: base_request_result sntpy_world_def request_params_def no_data_response_def
      check_response_def update_conv')

lemma no_data_request:
  "fst (base_request example_client ep ps (constant_world no_data_response)) =
     Inr (JObj [(''success'', JBool False)])"
  by (simp add: base_request_result constant_world_def no_data_response_def check_response_def)

theorem success_false_returns_none_witness:
  "fst (parsed example_client ''SNTPY'' sntpy_world) = Inr None \<and>
   fst (raw example_client ''SNTPY'' sntpy_world) = Inr None \<and>
   fst (quote example_client ''SNTPY'' False sntpy_world) = Inr None \<and>
   fst (historical example_client ''SNTPY'' ''RHI'' 1614556869 1619654469 sntpy_world) = Inr None \<and>
   fst (supported example_client ''SNTPY'' sntpy_world) = Inr None \<and>
   fst (Sentipy_sort example_client ''AHI'' 4 (constant_world no_data_response)) = Inr None \<and>
   fst (bulk example_client [''AAPL'', ''TSLA''] False (constant_world no_data_response)) = Inr None \<and>
   fst (Sentipy_all example_client False (constant_world no_data_response)) = Inr None \<and>
   fst (all_stocks example_client (constant_world no_data_response)) = Inr None"
proof -
  have e: "map_of [(''success'', JBool False)] ''success'' = Some (JBool False)"
    by simp
  note s = success_false_returns_none
    [OF e, where self = example_client and w = sntpy_world and symb = "''SNTPY''"
       and enrich = False and metric = "''RHI''" and start = 1614556869 and end_time = 1619654469]
  note c = success_false_returns_none
    [OF e, where self = example_client and w = "constant_world no_data_response"
       and enrich = False and metric = "''AHI''" and limit = 4
       and symbols = "[''AAPL'', ''TSLA'']"]
  have "fst (parsed example_client ''SNTPY'' sntpy_world) = Inr None"
    using s by (simp add: sntpy_request)
  moreover have "fst (raw example_client ''SNTPY'' sntpy_world) = Inr None"
    using s by (simp add: sntpy_request)
  moreover have "fst (quote example_client ''SNTPY'' False sntpy_world) = Inr None"
    using s by (simp add: sntpy_request)
  moreover have
    "fst (historical example_client ''SNTPY'' ''RHI'' 1614556869 1619654469 sntpy_world) = Inr None"
    using s by (simp add: sntpy_request)
  moreover have "fst (supported example_client ''SNTPY'' sntpy_world) = Inr None"
    using s by (simp add: sntpy_request)
  moreover have
    "fst (Sentipy_sort example_client ''AHI'' 4 (constant_world no_data_response)) = Inr None"
    using c by (simp add: no_data_request)
  moreover have
    "fst (bulk example_client [''AAPL'', ''TSLA''] False (constant_world no_data_response)) = Inr None"
    using c by (simp add: no_data_request)
  moreover have "fst (Sentipy_all example_client False (constant_world no_data_response)) = Inr None"
    using c by (simp add: no_data_request)
  moreover have "fst (all_stocks example_client (constant_world no_data_response)) = Inr None"
    using c by (simp add: no_data_request)
  ultimately show ?thesis by blast
qed

lemma sntpy_world_has_data:
  "\<exists>t. fst (parsed example_client ''AAPL'' sntpy_world) = Inr (Some t)"
  by (simp add: parsed_def operation_result base_request_result sntpy_world_def
      request_params_def parsed_response_def check_response_def if_success_def
      ticker_of_def dict_get_def update_conv')

subsection \<open>Failures of the request\<close>

text \<open>
  C4. When the body of the response to a request is exactly \<open>invalid_parameter\<close> or
  \<open>incorrect_key\<close>, the request, and so the operation that made it, raises
  \<open>ValueError("Incorrect key or token")\<close>. Neither the HTTP status nor the JSON
  decoding of the response is constrained.
\<close>

theorem credential_string_raises:
  assumes "content_decode (server w (base_url @ ep) (request_params self ps)) = Some body"
    and "body = ''invalid_parameter'' \<or> body = ''incorrect_key''"
  shows "fst (base_request self ep ps w) = Inl (ValueError ''Incorrect key or token'') \<and>
         fst (operation self ep ps build w) = Inl (ValueError ''Incorrect key or token'')"
  using assms by (auto simp: operation_result base_request_result check_response_def)

theorem credential_string_raises_witness:
  "fst (quote example_client ''TSLA'' True (constant_world incorrect_key_response)) =
     Inl (ValueError ''Incorrect key or token'')"
  unfolding quote_def
  using credential_string_raises
    [where w = "constant_world incorrect_key_response" and body = "''incorrect_key''"
       and self = example_client and ep = "''quote''" and build = quote_of
       and ps = "Some [(''symbol'', JStr ''TSLA''), (''enrich'', JBool True)]"]
  by (simp add: constant_world_def incorrect_key_response_def)

text \<open>
  C5. Every body that is neither bare string and does not decode as JSON is to give the
  exception that carries \<open>response.text\<close>, and the \<open>try\<close> of \<open>__base_request\<close> is there to
  turn such a body into it. The comparison with the bare strings, which runs before the
  \<open>try\<close>, decodes the body strictly as UTF-8: on a body that is not UTF-8 (here the single
  byte FF, with status 200) it raises \<open>UnicodeDecodeError\<close> and the \<open>try\<close> is never
  reached.
\<close>

theorem undecodable_body_raises_unicode_error:
  "content_decode undecodable_response \<noteq> Some ''invalid_parameter'' \<and>
   content_decode undecodable_response \<noteq> Some ''incorrect_key'' \<and>
   json_body undecodable_response = Inl JSONDecodeError \<and>
   ok undecodable_response \<and>
   fst (parsed example_client ''AAPL'' (constant_world undecodable_response)) =
     Inl UnicodeDecodeError \<and>
   fst (parsed example_client ''AAPL'' (constant_world undecodable_response)) \<noteq>
     Inl (Exception (JStr (text_body undecodable_response)))"
  by (simp add: parsed_def operation_result base_request_result check_response_def
      constant_world_def undecodable_response_def)

text \<open>
  The path that works: a body that is UTF-8 text other than the two bare strings, on
  which the decoder raises \<open>JSONDecodeError\<close>, gives \<open>Exception(response.text)\<close> whatever
  the HTTP status.
\<close>

lemma json_decode_error_raises_text:
  assumes "content_decode (server w (base_url @ ep) (request_params self ps)) = Some body"
    and "body \<noteq> ''invalid_parameter''" and "body \<noteq> ''incorrect_key''"
    and "json_body (server w (base_url @ ep) (request_params self ps)) = Inl JSONDecodeError"
  shows "fst (base_request self ep ps w) =
           Inl (Exception (JStr (text_body (server w (base_url @ ep) (request_params self ps))))) \<and>
         fst (operation self ep ps build w) =
           Inl (Exception (JStr (text_body (server w (base_url @ ep) (request_params self ps)))))"
  using assms by (simp add: operation_result base_request_result check_response_def)

lemma html_page_raises_text:
  "ok html_response \<and>
   fst (parsed example_client ''AAPL'' (constant_world html_response)) =
     Inl (Exception (JStr ''<html>Bad Gateway</html>''))"
  unfolding parsed_def
  using json_decode_error_raises_text
    [where w = "constant_world html_response" and body = "''<html>Bad Gateway</html>''"
       and self = example_client and ep = "''parsed''" and build = ticker_of
       and ps = "Some [(''symbol'', JStr ''AAPL'')]"]
  by (simp add: constant_world_def html_response_def)

text \<open>
  The \<open>except\<close> clause names \<open>JSONDecodeError\<close> only: a text on which the decoder raises
  anything else gives that exception, not the one that carries the text.
\<close>

lemma other_decoder_exception_passes:
  "fst (parsed example_client ''AAPL'' (constant_world deep_response)) = Inl RecursionError"
  by (simp add: parsed_def operation_result base_request_result check_response_def
      constant_world_def deep_response_def)

subsection \<open>The parameters of bulk\<close>

lemma str_join_cons:
  "str_join sep (x # ys) = x @ concat (map (\<lambda>y. sep @ y) ys)"
  by (induction ys arbitrary: x) auto

text \<open>
  C9. \<open>bulk\<close> sends one request, to the \<open>bulk\<close> endpoint, whose parameters are
  \<open>symbols\<close>, \<open>enrich\<close>, \<open>token\<close> and \<open>key\<close>: a single \<open>symbols\<close> value, the input symbols
  in input order with a comma before each one after the first.
\<close>

theorem bulk_sends_joined_symbols:
  "sent (snd (bulk self symbols enrich w)) =
     sent w @
       [(base_url @ ''bulk'',
         [(''symbols'', JStr (str_join '','' symbols)), (''enrich'', JBool enrich),
          (''token'', token self), (''key'', key self)])] \<and>
   str_join '','' [] = [] \<and>
   str_join '','' (x # ys) = x @ concat (map (\<lambda>y. '','' @ y) ys)"
  by (simp add: bulk_def operation_world base_request_world request_params_def str_join_cons)

theorem bulk_sends_joined_symbols_witness:
  "sent (snd (bulk example_client [''AAPL'', ''TSLA''] False (constant_world no_data_response))) =
     [(''https://api.sentimentinvestor.com/v4/bulk'',
       [(''symbols'', JStr ''AAPL,TSLA''), (''enrich'', JBool False),
        (''token'', JStr ''my-very-secret-token''), (''key'', JStr ''my-very-secret-key'')])]"
  using bulk_sends_joined_symbols
    [of example_client "[''AAPL'', ''TSLA'']" False "constant_world no_data_response"]
  by (simp add: constant_world_def example_client_def base_url_def)

subsection \<open>The symbol of a returned record\<close>

lemma if_success_Some:
  "if_success resp x = Inr (Some v) \<Longrightarrow> x = Inr v"
  by (auto simp: if_success_def split: sum.splits if_splits)

lemma operation_Some:
  assumes "fst (operation self ep ps build w) = Inr (Some v)"
  shows "\<exists>resp. fst (base_request self ep ps w) = Inr resp \<and> build resp = Inr v"
  using assms by (auto simp: operation_result split: sum.splits dest: if_success_Some)

lemma ticker_of_symbol:
  "ticker_of resp = Inr t \<Longrightarrow>
   \<exists>env. resp = JObj env \<and>
     symbol t = (case map_of env ''symbol'' of Some v \<Rightarrow> v | None \<Rightarrow> JNull)"
  apply (cases resp; simp add: ticker_of_def)
  subgoal for env
    by (cases "dict_get env ''results''") (auto simp: dict_get_def split: option.splits)
  done

lemma QuoteData_init_symbol:
  "QuoteData_init sy res = Inr q \<Longrightarrow> symbol q = sy"
  by (cases res) (auto simp: QuoteData_init.simps TickerData.defs split: sum.splits)

lemma quote_of_symbol:
  "quote_of resp = Inr q \<Longrightarrow>
   \<exists>env. resp = JObj env \<and>
     symbol q = (case map_of env ''symbol'' of Some v \<Rightarrow> v | None \<Rightarrow> JNull)"
  by (cases resp) (auto simp: quote_of_def dict_get_def dest!: QuoteData_init_symbol split: option.splits)

lemma if_success_truthy:
  "truthy (dict_get env ''success'') \<Longrightarrow> x = Inr v \<Longrightarrow> if_success (JObj env) x = Inr (Some v)"
  by (simp add: if_success_def)

lemma operation_returns:
  assumes "fst (base_request self ep ps w) = Inr (JObj env)"
    and "truthy (dict_get env ''success'')"
    and "build (JObj env) = Inr v"
  shows "fst (operation self ep ps build w) = Inr (Some v)"
  using assms by (simp add: operation_result if_success_truthy)

lemma ticker_of_returns:
  assumes "map_of env ''results'' = Some (JObj res)"
  shows "\<exists>t. ticker_of (JObj env) = Inr t"
  using assms by (simp add: ticker_of_def dict_get_def)

lemma quote_of_returns:
  assumes "map_of env ''results'' = Some (JObj res)"
    and "map_of res ''subreddits'' = None \<or>
         (\<exists>sub ms ss. map_of res ''subreddits'' = Some (JObj sub) \<and>
            map_of sub ''reddit_subreddit_mentions'' = Some (JObj ms) \<and>
            map_of sub ''reddit_subreddit_sentiment'' = Some (JObj ss))"
  shows "\<exists>q. quote_of (JObj env) = Inr q"
proof -
  have "\<exists>q. QuoteData_init (dict_get env ''symbol'') (JObj res) = Inr q"
    using assms(2) subreddits_absent [of res] subreddits_both [of res] by blast
  with assms(1) show ?thesis by (simp add: quote_of_def dict_get_def)
qed

lemma parsed_returns:
  assumes "fst (base_request self ''parsed'' (Some [(''symbol'', JStr symb)]) w) = Inr (JObj env)"
    and "truthy (dict_get env ''success'')"
    and "map_of env ''results'' = Some (JObj res)"
  shows "\<exists>t. fst (parsed self symb w) = Inr (Some t) \<and>
           symbol t = (case map_of env ''symbol'' of Some v \<Rightarrow> v | None \<Rightarrow> JNull)"
proof -
  from ticker_of_returns [OF assms(3)] obtain t where t: "ticker_of (JObj env) = Inr t" ..
  from operation_returns [where build = ticker_of, OF assms(1,2) t]
  have "fst (parsed self symb w) = Inr (Some t)" by (simp add: parsed_def)
  with ticker_of_symbol [OF t] show ?thesis by auto
qed

lemma raw_returns:
  assumes "fst (base_request self ''raw'' (Some [(''symbol'', JStr symb)]) w) = Inr (JObj env)"
    and "truthy (dict_get env ''success'')"
    and "map_of env ''results'' = Some (JObj res)"
    and "map_of res ''subreddits'' = None \<or>
         (\<exists>sub ms ss. map_of res ''subreddits'' = Some (JObj sub) \<and>
            map_of sub ''reddit_subreddit_mentions'' = Some (JObj ms) \<and>
            map_of sub ''reddit_subreddit_sentiment'' = Some (JObj ss))"
  shows "\<exists>q. fst (raw self symb w) = Inr (Some q) \<and>
           symbol q = (case map_of env ''symbol'' of Some v \<Rightarrow> v | None \<Rightarrow> JNull)"
proof -
  from quote_of_returns [OF assms(3,4)] obtain q where q: "quote_of (JObj env) = Inr q" ..
  from operation_returns [where build = quote_of, OF assms(1,2) q]
  have "fst (raw self symb w) = Inr (Some q)" by (simp add: raw_def)
  with quote_of_symbol [OF q] show ?thesis by auto
qed

lemma quote_returns:
  assumes "fst (base_request self ''quote''
                  (Some [(''symbol'', JStr symb), (''enrich'', JBool enrich)]) w) = Inr (JObj env)"
    and "truthy (dict_get env ''success'')"
    and "map_of env ''results'' = Some (JObj res)"
    and "map_of res ''subreddits'' = None \<or>
         (\<exists>sub ms ss. map_of res ''subreddits'' = Some (JObj sub) \<and>
            map_of sub ''reddit_subreddit_mentions'' = Some (JObj ms) \<and>
            map_of sub ''reddit_subreddit_sentiment'' = Some (JObj ss))"
  shows "\<exists>q. fst (quote self symb enrich w) = Inr (Some q) \<and>
           symbol q = (case map_of env ''symbol'' of Some v \<Rightarrow> v | None \<Rightarrow> JNull)"
proof -
  from quote_of_returns [OF assms(3,4)] obtain q where q: "quote_of (JObj env) = Inr q" ..
  from operation_returns [where build = quote_of, OF assms(1,2) q]
  have "fst (quote self symb enrich w) = Inr (Some q)" by (simp add: quote_def)
  with quote_of_symbol [OF q] show ?thesis by auto
qed

lemma record_symbol_if_returned:
  "(fst (parsed self symb w) = Inr (Some t) \<longrightarrow>
      (\<exists>env. fst (base_request self ''parsed'' (Some [(''symbol'', JStr symb)]) w) = Inr (JObj env) \<and>
         symbol t = (case map_of env ''symbol'' of Some v \<Rightarrow> v | None \<Rightarrow> JNull))) \<and>
   (fst (raw self symb w) = Inr (Some q) \<longrightarrow>
      (\<exists>env. fst (base_request self ''raw'' (Some [(''symbol'', JStr symb)]) w) = Inr (JObj env) \<and>
         symbol q = (case map_of env ''symbol'' of Some v \<Rightarrow> v | None \<Rightarrow> JNull))) \<and>
   (fst (quote self symb enrich w) = Inr (Some q') \<longrightarrow>
      (\<exists>env. fst (base_request self ''quote''
                    (Some [(''symbol'', JStr symb), (''enrich'', JBool enrich)]) w) = Inr (JObj env) \<and>
         symbol q' = (case map_of env ''symbol'' of Some v \<Rightarrow> v | None \<Rightarrow> JNull)))"
  unfolding parsed_def raw_def quote_def
  by (intro conjI impI; drule operation_Some) (auto dest: ticker_of_symbol quote_of_symbol)

text \<open>
  C10. When the request of \<open>parsed\<close>, \<open>raw\<close> or \<open>quote\<close> gives a mapping \<open>env\<close> whose
  \<open>success\<close> is true and whose \<open>results\<close> are a mapping (for \<open>raw\<close> and \<open>quote\<close>: one
  without a \<open>subreddits\<close> entry, or with both sub-mappings in it), the operation returns a
  record, and the record's \<open>symbol\<close> is the \<open>symbol\<close> entry of \<open>env\<close>, \<open>None\<close> when \<open>env\<close> has
  none. And whenever one of the three returns a record at all, its \<open>symbol\<close> is that of
  the mapping the request gave. The symbol passed by the caller does not enter the record.
\<close>

theorem record_symbol_from_envelope:
  "(fst (base_request self ''parsed'' (Some [(''symbol'', JStr symb)]) w) = Inr (JObj env) \<and>
    truthy (dict_get env ''success'') \<and> map_of env ''results'' = Some (JObj res) \<longrightarrow>
      (\<exists>t. fst (parsed self symb w) = Inr (Some t) \<and>
         symbol t = (case map_of env ''symbol'' of Some v \<Rightarrow> v | None \<Rightarrow> JNull))) \<and>
   (fst (base_request self ''raw'' (Some [(''symbol'', JStr symb)]) w) = Inr (JObj env) \<and>
    truthy (dict_get env ''success'') \<and> map_of env ''results'' = Some (JObj res) \<and>
    (map_of res ''subreddits'' = None \<or>
     (\<exists>sub ms ss. map_of res ''subreddits'' = Some (JObj sub) \<and>
        map_of sub ''reddit_subreddit_mentions'' = Some (JObj ms) \<and>
        map_of sub ''reddit_subreddit_sentiment'' = Some (JObj ss))) \<longrightarrow>
      (\<exists>q. fst (raw self symb w) = Inr (Some q) \<and>
         symbol q = (case map_of env ''symbol'' of Some v \<Rightarrow> v | None \<Rightarrow> JNull))) \<and>
   (fst (base_request self ''quote''
           (Some [(''symbol'', JStr symb), (''enrich'', JBool enrich)]) w) = Inr (JObj env) \<and>
    truthy (dict_get env ''success'') \<and> map_of env ''results'' = Some (JObj res) \<and>
    (map_of res ''subreddits'' = None \<or>
     (\<exists>sub ms ss. map_of res ''subreddits'' = Some (JObj sub) \<and>
        map_of sub ''reddit_subreddit_mentions'' = Some (JObj ms) \<and>
        map_of sub ''reddit_subreddit_sentiment'' = Some (JObj ss))) \<longrightarrow>
      (\<exists>q. fst (quote self symb enrich w) = Inr (Some q) \<and>
         symbol q = (case map_of env ''symbol'' of Some v \<Rightarrow> v | None \<Rightarrow> JNull))) \<and>
   (fst (parsed self symb w) = Inr (Some t) \<longrightarrow>
      (\<exists>env. fst (base_request self ''parsed'' (Some [(''symbol'', JStr symb)]) w) = Inr (JObj env) \<and>
         symbol t = (case map_of env ''symbol'' of Some v \<Rightarrow> v | None \<Rightarrow> JNull))) \<and>
   (fst (raw self symb w) = Inr (Some q) \<longrightarrow>
      (\<exists>env. fst (base_request self ''raw'' (Some [(''symbol'', JStr symb)]) w) = Inr (JObj env) \<and>
         symbol q = (case map_of env ''symbol'' of Some v \<Rightarrow> v | None \<Rightarrow> JNull))) \<and>
   (fst (quote self symb enrich w) = Inr (Some q') \<longrightarrow>
      (\<exists>env. fst (base_request self ''quote''
                    (Some [(''symbol'', JStr symb), (''enrich'', JBool enrich)]) w) = Inr (JObj env) \<and>
         symbol q' = (case map_of env ''symbol'' of Some v \<Rightarrow> v | None \<Rightarrow> JNull)))"
proof (intro conjI)
  show "fst (base_request self ''parsed'' (Some [(''symbol'', JStr symb)]) w) = Inr (JObj env) \<and>
    truthy (dict_get env ''success'') \<and> map_of env ''results'' = Some (JObj res) \<longrightarrow>
      (\<exists>t. fst (parsed self symb w) = Inr (Some t) \<and>
         symbol t = (case map_of env ''symbol'' of Some v \<Rightarrow> v | None \<Rightarrow> JNull))"
    using parsed_returns [of self symb w env res] by blast
  show "fst (base_request self ''raw'' (Some [(''symbol'', JStr symb)]) w) = Inr (JObj env) \<and>
    truthy (dict_get env ''success'') \<and> map_of env ''results'' = Some (JObj res) \<and>
    (map_of res ''subreddits'' = None \<or>
     (\<exists>sub ms ss. map_of res ''subreddits'' = Some (JObj sub) \<and>
        map_of sub ''reddit_subreddit_mentions'' = Some (JObj ms) \<and>
        map_of sub ''reddit_subreddit_sentiment'' = Some (JObj ss))) \<longrightarrow>
      (\<exists>q. fst (raw self symb w) = Inr (Some q) \<and>
         symbol q = (case map_of env ''symbol'' of Some v \<Rightarrow> v | None \<Rightarrow> JNull))"
    using raw_returns [of self symb w env res] by blast
  show "fst (base_request self ''quote''
           (Some [(''symbol'', JStr symb), (''enrich'', JBool enrich)]) w) = Inr (JObj env) \<and>
    truthy (dict_get env ''success'') \<and> map_of env ''results'' = Some (JObj res) \<and>
    (map_of res ''subreddits'' = None \<or>
     (\<exists>sub ms ss. map_of res ''subreddits'' = Some (JObj sub) \<and>
        map_of sub ''reddit_subreddit_mentions'' = Some (JObj ms) \<and>
        map_of sub ''reddit_subreddit_sentiment'' = Some (JObj ss))) \<longrightarrow>
      (\<exists>q. fst (quote self symb enrich w) = Inr (Some q) \<and>
         symbol q = (case map_of env ''symbol'' of Some v \<Rightarrow> v | None \<Rightarrow> JNull))"
    using quote_returns [of self symb enrich w env res] by blast
qed (rule record_symbol_if_returned [THEN conjunct1]
     record_symbol_if_returned [THEN conjunct2, THEN conjunct1]
     record_symbol_if_returned [THEN conjunct2, THEN conjunct2])+

lemma parsed_response_request:
  "fst (base_request example_client ep ps (constant_world parsed_response)) =
     Inr (JObj [(''success'', JBool True), (''symbol'', JStr ''AAPL''),
                (''results'', JObj [(''AHI'', JFloat (1 / 2))])])"
  by (simp add: base_request_result constant_world_def parsed_response_def check_response_def)

lemma unnamed_response_request:
  "fst (base_request example_client ep ps (constant_world unnamed_response)) =
     Inr (JObj [(''success'', JBool True), (''results'', JObj [])])"
  by (simp add: base_request_result constant_world_def unnamed_response_def check_response_def)

lemma enriched_response_request:
  "fst (base_request example_client ep ps (constant_world enriched_response)) =
     Inr (JObj [(''success'', JBool True), (''symbol'', JStr ''TSLA''),
                (''results'', JObj example_quote_fields)])"
  by (simp add: base_request_result constant_world_def enriched_response_def check_response_def)

theorem record_symbol_from_envelope_witness:
  "(\<exists>t. fst (parsed example_client ''aapl'' (constant_world parsed_response)) = Inr (Some t) \<and>
        symbol t = JStr ''AAPL'') \<and>
   (\<exists>q. fst (raw example_client ''aapl'' (constant_world parsed_response)) = Inr (Some q) \<and>
        symbol q = JStr ''AAPL'') \<and>
   (\<exists>q. fst (quote example_client ''tsla'' True (constant_world enriched_response)) = Inr (Some q) \<and>
        symbol q = JStr ''TSLA'') \<and>
   (\<exists>q. fst (quote example_client ''TSLA'' False (constant_world unnamed_response)) = Inr (Some q) \<and>
        symbol q = JNull)"
proof (intro conjI)
  show "\<exists>t. fst (parsed example_client ''aapl'' (constant_world parsed_response)) = Inr (Some t) \<and>
        symbol t = JStr ''AAPL''"
    using record_symbol_from_envelope
      [where self = example_client and symb = "''aapl''" and w = "constant_world parsed_response"
         and env = "[(''success'', JBool True), (''symbol'', JStr ''AAPL''),
                     (''results'', JObj [(''AHI'', JFloat (1 / 2))])]"
         and res = "[(''AHI'', JFloat (1 / 2))]", THEN conjunct1]
    by (simp add: parsed_response_request dict_get_def)
  show "\<exists>q. fst (raw example_client ''aapl'' (constant_world parsed_response)) = Inr (Some q) \<and>
        symbol q = JStr ''AAPL''"
    using record_symbol_from_envelope
      [where self = example_client and symb = "''aapl''" and w = "constant_world parsed_response"
         and env = "[(''success'', JBool True), (''symbol'', JStr ''AAPL''),
                     (''results'', JObj [(''AHI'', JFloat (1 / 2))])]"
         and res = "[(''AHI'', JFloat (1 / 2))]", THEN conjunct2, THEN conjunct1]
    by (simp add: parsed_response_request dict_get_def)
  show "\<exists>q. fst (quote example_client ''tsla'' True (constant_world enriched_response)) = Inr (Some q) \<and>
        symbol q = JStr ''TSLA''"
    using record_symbol_from_envelope
      [where self = example_client and symb = "''tsla''" and enrich = True
         and w = "constant_world enriched_response"
         and env = "[(''success'', JBool True), (''symbol'', JStr ''TSLA''),
                     (''results'', JObj example_quote_fields)]"
         and res = example_quote_fields, THEN conjunct2, THEN conjunct2, THEN conjunct1]
    by (simp add: enriched_response_request dict_get_def) (simp add: example_quote_fields_def)
  show "\<exists>q. fst (quote example_client ''TSLA'' False (constant_world unnamed_response)) = Inr (Some q) \<and>
        symbol q = JNull"
    using record_symbol_from_envelope
      [where self = example_client and symb = "''TSLA''" and enrich = False
         and w = "constant_world unnamed_response"
         and env = "[(''success'', JBool True), (''results'', JObj [])]"
         and res = "[]", THEN conjunct2, THEN conjunct2, THEN conjunct1]
    by (simp add: unnamed_response_request dict_get_def)
qed

subsection \<open>Lists of records\<close>

lemma ticker_list_all2:
  "ticker_list rs = Inr ts \<Longrightarrow>
   list_all2 (\<lambda>r t. \<exists>e. r = JObj e \<and> TickerData_init (dict_get e ''symbol'') (JObj e) = Inr t) rs ts"
proof (induction rs arbitrary: ts)
  case Nil
  then show ?case by simp
next
  case (Cons r rs)
  then obtain e where e: "r = JObj e" by (cases r) auto
  from Cons.prems e obtain ts' where ts': "ticker_list rs = Inr ts'"
    by (cases "ticker_list rs") auto
  with Cons.prems e have ts: "ts = \<lparr> symbol = dict_get e ''symbol'',
           TickerData.sentiment = dict_get e ''sentiment'',
           AHI = dict_get e ''AHI'',
           RHI = dict_get e ''RHI'',
           SGP = dict_get e ''SGP'' \<rparr> # ts'"
    by auto
  from Cons.IH [OF ts'] e ts show ?case by simp
qed

lemma ticker_list_dicts:
  "\<forall>r\<in>set rs. \<exists>e. r = JObj e \<Longrightarrow> \<exists>ts. ticker_list rs = Inr ts"
  by (induction rs) auto

lemma tickers_of_array:
  assumes "map_of env ''results'' = Some (JArr rs)"
  shows "tickers_of (JObj env) = ticker_list rs"
  using assms by (simp add: tickers_of_def dict_get_def)

lemma operation_tickers:
  assumes "fst (operation self ep ps tickers_of w) = Inr (Some ts)"
    and "fst (base_request self ep ps w) = Inr (JObj env)"
    and "map_of env ''results'' = Some (JArr rs)"
  shows "length ts = length rs \<and>
         (\<forall>i<length rs. \<exists>e. rs ! i = JObj e \<and>
            TickerData_init (dict_get e ''symbol'') (JObj e) = Inr (ts ! i))"
proof -
  from operation_Some [OF assms(1)] assms(2) have "tickers_of (JObj env) = Inr ts"
    by auto
  with assms(3) have "ticker_list rs = Inr ts"
    by (simp add: tickers_of_array)
  from ticker_list_all2 [OF this] show ?thesis
    by (simp add: list_all2_conv_all_nth)
qed

lemma operation_tickers_returns:
  assumes "fst (base_request self ep ps w) = Inr (JObj env)"
    and "truthy (dict_get env ''success'')"
    and "map_of env ''results'' = Some (JArr rs)"
    and "\<forall>r\<in>set rs. \<exists>e. r = JObj e"
  shows "\<exists>ts. fst (operation self ep ps tickers_of w) = Inr (Some ts)"
proof -
  from ticker_list_dicts [OF assms(4)] obtain ts where "ticker_list rs = Inr ts" by blast
  with assms(3) have "tickers_of (JObj env) = Inr ts"
    by (simp add: tickers_of_array)
  from operation_returns [where build = tickers_of, OF assms(1,2) this] show ?thesis by blast
qed

lemma operation_tickers_total:
  assumes "fst (base_request self ep ps w) = Inr (JObj env)"
    and "truthy (dict_get env ''success'')"
    and "map_of env ''results'' = Some (JArr rs)"
    and "\<forall>r\<in>set rs. \<exists>e. r = JObj e"
  shows "\<exists>ts. fst (operation self ep ps tickers_of w) = Inr (Some ts) \<and>
           length ts = length rs \<and>
           (\<forall>i<length rs. \<exists>e. rs ! i = JObj e \<and>
              TickerData_init (dict_get e ''symbol'') (JObj e) = Inr (ts ! i))"
proof -
  from operation_tickers_returns [OF assms] obtain ts
    where ts: "fst (operation self ep ps tickers_of w) = Inr (Some ts)" ..
  from operation_tickers [OF ts assms(1,3)] ts show ?thesis by blast
qed

text \<open>
  C8. When the request of \<open>sort\<close> or \<open>bulk\<close> gives a mapping whose \<open>success\<close> is true and
  whose \<open>results\<close> are a sequence of \<open>n\<close> mappings, the operation returns a list of \<open>n\<close>
  records, and the record at each index is the \<open>TickerData\<close> of the element at that index,
  built with that element's own \<open>symbol\<close> entry. And whenever one of the two returns a list
  on a sequence of results at all, the list has that length and those records.
\<close>

theorem ticker_sequence_in_response_order:
  "(fst (base_request self ''sort'' (Some [(''metric'', JStr metric), (''limit'', JInt limit)]) w)
      = Inr (JObj env) \<and>
    truthy (dict_get env ''success'') \<and> map_of env ''results'' = Some (JArr rs) \<and>
    (\<forall>r\<in>set rs. \<exists>e. r = JObj e) \<longrightarrow>
      (\<exists>ts. fst (Sentipy_sort self metric limit w) = Inr (Some ts) \<and>
         length ts = length rs \<and>
         (\<forall>i<length rs. \<exists>e. rs ! i = JObj e \<and>
            TickerData_init (dict_get e ''symbol'') (JObj e) = Inr (ts ! i)))) \<and>
   (fst (base_request self ''bulk''
           (Some [(''symbols'', JStr (str_join '','' symbols)), (''enrich'', JBool enrich)]) w)
      = Inr (JObj env) \<and>
    truthy (dict_get env ''success'') \<and> map_of env ''results'' = Some (JArr rs) \<and>
    (\<forall>r\<in>set rs. \<exists>e. r = JObj e) \<longrightarrow>
      (\<exists>ts. fst (bulk self symbols enrich w) = Inr (Some ts) \<and>
         length ts = length rs \<and>
         (\<forall>i<length rs. \<exists>e. rs ! i = JObj e \<and>
            TickerData_init (dict_get e ''symbol'') (JObj e) = Inr (ts ! i)))) \<and>
   (fst (Sentipy_sort self metric limit w) = Inr (Some ts) \<and>
    fst (base_request self ''sort'' (Some [(''metric'', JStr metric), (''limit'', JInt limit)]) w)
      = Inr (JObj env) \<and>
    map_of env ''results'' = Some (JArr rs) \<longrightarrow>
      length ts = length rs \<and>
      (\<forall>i<length rs. \<exists>e. rs ! i = JObj e \<and>
         TickerData_init (dict_get e ''symbol'') (JObj e) = Inr (ts ! i))) \<and>
   (fst (bulk self symbols enrich w) = Inr (Some ts) \<and>
    fst (base_request self ''bulk''
           (Some [(''symbols'', JStr (str_join '','' symbols)), (''enrich'', JBool enrich)]) w)
      = Inr (JObj env) \<and>
    map_of env ''results'' = Some (JArr rs) \<longrightarrow>
      length ts = length rs \<and>
      (\<forall>i<length rs. \<exists>e. rs ! i = JObj e \<and>
         TickerData_init (dict_get e ''symbol'') (JObj e) = Inr (ts ! i)))"
  unfolding Sentipy_sort_def bulk_def
  using operation_tickers [of self _ _ w ts env rs]
    operation_tickers_total [of self _ _ w env rs]
  by blast

lemma sort_response_request:
  "fst (base_request example_client ep ps (constant_world sort_response)) =
     Inr (JObj [(''success'', JBool True),
                (''results'', JArr [JObj [(''symbol'', JStr ''ET''), (''AHI'', JInt 2)],
                                    JObj [(''symbol'', JStr ''AMC''), (''AHI'', JInt 1)]])])"
  by (simp add: base_request_result constant_world_def sort_response_def check_response_def)

lemma two_tickers:
  assumes "length ts = length [JObj [(''symbol'', JStr ''ET''), (''AHI'', JInt 2)],
                               JObj [(''symbol'', JStr ''AMC''), (''AHI'', JInt 1)]]"
    and "\<forall>i<length [JObj [(''symbol'', JStr ''ET''), (''AHI'', JInt 2)],
                      JObj [(''symbol'', JStr ''AMC''), (''AHI'', JInt 1)]].
           \<exists>e. [JObj [(''symbol'', JStr ''ET''), (''AHI'', JInt 2)],
                 JObj [(''symbol'', JStr ''AMC''), (''AHI'', JInt 1)]] ! i = JObj e \<and>
             TickerData_init (dict_get e ''symbol'') (JObj e) = Inr (ts ! i)"
  shows "\<exists>t1 t2. ts = [t1, t2] \<and>
     symbol t1 = JStr ''ET'' \<and> AHI t1 = JInt 2 \<and> symbol t2 = JStr ''AMC'' \<and> AHI t2 = JInt 1"
proof -
  from assms(1) obtain t1 t2 where t: "ts = [t1, t2]"
    by (cases ts; cases "tl ts") auto
  from assms(2) have n: "\<And>i. i < 2 \<Longrightarrow>
      \<exists>e. [JObj [(''symbol'', JStr ''ET''), (''AHI'', JInt 2)],
            JObj [(''symbol'', JStr ''AMC''), (''AHI'', JInt 1)]] ! i = JObj e \<and>
        TickerData_init (dict_get e ''symbol'') (JObj e) = Inr (ts ! i)"
    by simp
  from n [of 0] t have "symbol t1 = JStr ''ET'' \<and> AHI t1 = JInt 2"
    by (auto simp: dict_get_def)
  moreover from n [of 1] t have "symbol t2 = JStr ''AMC'' \<and> AHI t2 = JInt 1"
    by (auto simp: dict_get_def)
  ultimately show ?thesis using t by blast
qed

theorem ticker_sequence_in_response_order_witness:
  "(\<exists>t1 t2. fst (Sentipy_sort example_client ''AHI'' 2 (constant_world sort_response)) =
        Inr (Some [t1, t2]) \<and>
      symbol t1 = JStr ''ET'' \<and> AHI t1 = JInt 2 \<and> symbol t2 = JStr ''AMC'' \<and> AHI t2 = JInt 1) \<and>
   (\<exists>t1 t2. fst (bulk example_client [''AMC'', ''ET''] False (constant_world sort_response)) =
        Inr (Some [t1, t2]) \<and>
      symbol t1 = JStr ''ET'' \<and> AHI t1 = JInt 2 \<and> symbol t2 = JStr ''AMC'' \<and> AHI t2 = JInt 1)"
proof (intro conjI)
  let ?rs = "[JObj [(''symbol'', JStr ''ET''), (''AHI'', JInt 2)],
              JObj [(''symbol'', JStr ''AMC''), (''AHI'', JInt 1)]]"
  let ?env = "[(''success'', JBool True), (''results'', JArr ?rs)]"
  have "\<exists>ts. fst (Sentipy_sort example_client ''AHI'' 2 (constant_world sort_response)) = Inr (Some ts) \<and>
         length ts = length ?rs \<and>
         (\<forall>i<length ?rs. \<exists>e. ?rs ! i = JObj e \<and>
            TickerData_init (dict_get e ''symbol'') (JObj e) = Inr (ts ! i))"
    using ticker_sequence_in_response_order
      [where self = example_client and metric = "''AHI''" and limit = 2
         and w = "constant_world sort_response" and env = ?env and rs = ?rs, THEN conjunct1]
    by (simp add: sort_response_request dict_get_def)
  then show "\<exists>t1 t2. fst (Sentipy_sort example_client ''AHI'' 2 (constant_world sort_response)) =
        Inr (Some [t1, t2]) \<and>
      symbol t1 = JStr ''ET'' \<and> AHI t1 = JInt 2 \<and> symbol t2 = JStr ''AMC'' \<and> AHI t2 = JInt 1"
    using two_tickers by blast
  have "\<exists>ts. fst (bulk example_client [''AMC'', ''ET''] False (constant_world sort_response)) = Inr (Some ts) \<and>
         length ts = length ?rs \<and>
         (\<forall>i<length ?rs. \<exists>e. ?rs ! i = JObj e \<and>
            TickerData_init (dict_get e ''symbol'') (JObj e) = Inr (ts ! i))"
    using ticker_sequence_in_response_order
      [where self = example_client and symbols = "[''AMC'', ''ET'']" and enrich = False
         and w = "constant_world sort_response" and env = ?env and rs = ?rs,
         THEN conjunct2, THEN conjunct1]
    by (simp add: sort_response_request dict_get_def)
  then show "\<exists>t1 t2. fst (bulk example_client [''AMC'', ''ET''] False (constant_world sort_response)) =
        Inr (Some [t1, t2]) \<and>
      symbol t1 = JStr ''ET'' \<and> AHI t1 = JInt 2 \<and> symbol t2 = JStr ''AMC'' \<and> AHI t2 = JInt 1"
    using two_tickers by blast
qed

subsection \<open>The history\<close>

lemma dict_lookup_store:
  "dict_lookup (dict_store d t v) k =
     (if key_of t = key_of k then Some v else dict_lookup d k)"
  by (induction d) auto

lemma keys_dict_store:
  "(\<lambda>p. key_of (fst p)) ` set (dict_store d t v) =
     insert (key_of t) ((\<lambda>p. key_of (fst p)) ` set d)"
  by (induction d t v rule: dict_store.induct) (simp_all add: insert_commute)

lemma distinct_dict_store:
  "distinct (map (key_of \<circ> fst) d) \<Longrightarrow> distinct (map (key_of \<circ> fst) (dict_store d t v))"
proof (induction d)
  case Nil
  then show ?case by simp
next
  case (Cons p d)
  obtain k' v' where p: "p = (k', v')" by (cases p)
  show ?case
  proof (cases "key_of k' = key_of t")
    case True
    with Cons.prems p show ?thesis by simp
  next
    case False
    have "key_of k' \<notin> (\<lambda>p. key_of (fst p)) ` set (dict_store d t v)"
      using Cons.prems p False by (simp add: keys_dict_store)
    with Cons p False show ?thesis by simp
  qed
qed

lemma history_dict_lookup:
  "history_dict acc dps = Inr m \<Longrightarrow>
   dict_lookup m k =
     (case last_entry_data dps k of Some v \<Rightarrow> Some v | None \<Rightarrow> dict_lookup acc k)"
proof (induction dps arbitrary: acc)
  case Nil
  then show ?case by simp
next
  case (Cons dp dps)
  from Cons.prems obtain e where e: "dp = JObj e" by (cases dp) auto
  let ?t = "dict_get e ''timestamp''" and ?v = "dict_get e ''data''"
  from Cons.prems e have h: "key_of ?t \<noteq> None"
    and r: "history_dict (dict_store acc ?t ?v) dps = Inr m"
    by (auto simp: dict_setitem_def split: if_splits)
  from Cons.IH [OF r] e show ?case
    by (simp add: dict_lookup_store split: option.splits)
qed

lemma history_dict_distinct:
  "history_dict acc dps = Inr m \<Longrightarrow> distinct (map (key_of \<circ> fst) acc) \<Longrightarrow>
   distinct (map (key_of \<circ> fst) m)"
proof (induction dps arbitrary: acc)
  case Nil
  then show ?case by simp
next
  case (Cons dp dps)
  from Cons.prems obtain e where e: "dp = JObj e" by (cases dp) auto
  let ?t = "dict_get e ''timestamp''" and ?v = "dict_get e ''data''"
  from Cons.prems e have r: "history_dict (dict_store acc ?t ?v) dps = Inr m"
    by (auto simp: dict_setitem_def split: if_splits)
  from Cons.IH [OF r distinct_dict_store [OF Cons.prems(2)]] show ?case .
qed

lemma history_of_array:
  assumes "map_of env ''results'' = Some (JArr rs)"
  shows "history_of (JObj env) = history_dict [] rs"
  using assms by (simp add: history_of_def dict_get_def)

lemma history_dict_returns:
  "\<forall>dp\<in>set dps. \<exists>e. dp = JObj e \<and> key_of (dict_get e ''timestamp'') \<noteq> None \<Longrightarrow>
   \<exists>m. history_dict acc dps = Inr m"
proof (induction dps arbitrary: acc)
  case Nil
  then show ?case by simp
next
  case (Cons dp dps)
  then obtain e where e: "dp = JObj e" "key_of (dict_get e ''timestamp'') \<noteq> None" by auto
  from Cons.prems have "\<forall>dp\<in>set dps. \<exists>e. dp = JObj e \<and> key_of (dict_get e ''timestamp'') \<noteq> None"
    by simp
  from Cons.IH [OF this] e show ?case
    by (simp add: dict_setitem_def)
qed

lemma historical_if_returned:
  assumes "fst (historical self symb metric start end_time w) = Inr (Some m)"
    and "fst (base_request self ''historical''
           (Some [(''symbol'', JStr symb), (''metric'', JStr metric),
                  (''start'', JInt start), (''end'', JInt end_time)]) w) = Inr (JObj env)"
    and "map_of env ''results'' = Some (JArr rs)"
  shows "(\<forall>k. dict_lookup m k = last_entry_data rs k) \<and> distinct (map (key_of \<circ> fst) m)"
proof -
  from operation_Some [OF assms(1) [unfolded historical_def]] assms(2)
  have "history_of (JObj env) = Inr m" by auto
  with assms(3) have h: "history_dict [] rs = Inr m"
    by (simp add: history_of_array)
  have "dict_lookup m k = last_entry_data rs k" for k
    using history_dict_lookup [OF h, of k] by (simp split: option.splits)
  with history_dict_distinct [OF h] show ?thesis by simp
qed

lemma historical_returns:
  assumes "fst (base_request self ''historical''
           (Some [(''symbol'', JStr symb), (''metric'', JStr metric),
                  (''start'', JInt start), (''end'', JInt end_time)]) w) = Inr (JObj env)"
    and "truthy (dict_get env ''success'')"
    and "map_of env ''results'' = Some (JArr rs)"
    and "\<forall>dp\<in>set rs. \<exists>e. dp = JObj e \<and> key_of (dict_get e ''timestamp'') \<noteq> None"
  shows "\<exists>m. fst (historical self symb metric start end_time w) = Inr (Some m) \<and>
           (\<forall>k. dict_lookup m k = last_entry_data rs k) \<and> distinct (map (key_of \<circ> fst) m)"
proof -
  from history_dict_returns [OF assms(4)] obtain m where "history_dict [] rs = Inr m" by blast
  with assms(3) have "history_of (JObj env) = Inr m"
    by (simp add: history_of_array)
  from operation_returns [where build = history_of, OF assms(1,2) this]
  have m: "fst (historical self symb metric start end_time w) = Inr (Some m)"
    by (simp add: historical_def)
  from historical_if_returned [OF m assms(1,3)] m show ?thesis by blast
qed

text \<open>
  C6. When the request of \<open>historical\<close> gives a mapping whose \<open>success\<close> is true and whose
  \<open>results\<close> are a sequence of mappings with hashable timestamps, the operation returns a
  dict; the dict has one entry per timestamp, and its value at any key is the \<open>data\<close> of
  the last entry of the sequence whose \<open>timestamp\<close> equals the key, so that a later entry
  overwrites an earlier one with the same timestamp. And whenever \<open>historical\<close> returns a
  dict on a sequence of results at all, the dict is that one.
\<close>

theorem historical_mapping:
  "(fst (base_request self ''historical''
           (Some [(''symbol'', JStr symb), (''metric'', JStr metric),
                  (''start'', JInt start), (''end'', JInt end_time)]) w) = Inr (JObj env) \<and>
    truthy (dict_get env ''success'') \<and> map_of env ''results'' = Some (JArr rs) \<and>
    (\<forall>dp\<in>set rs. \<exists>e. dp = JObj e \<and> key_of (dict_get e ''timestamp'') \<noteq> None) \<longrightarrow>
      (\<exists>m. fst (historical self symb metric start end_time w) = Inr (Some m) \<and>
         (\<forall>k. dict_lookup m k = last_entry_data rs k) \<and>
         distinct (map (key_of \<circ> fst) m))) \<and>
   (fst (historical self symb metric start end_time w) = Inr (Some m) \<and>
    fst (base_request self ''historical''
           (Some [(''symbol'', JStr symb), (''metric'', JStr metric),
                  (''start'', JInt start), (''end'', JInt end_time)]) w) = Inr (JObj env) \<and>
    map_of env ''results'' = Some (JArr rs) \<longrightarrow>
      (\<forall>k. dict_lookup m k = last_entry_data rs k) \<and> distinct (map (key_of \<circ> fst) m))"
  using historical_returns [of self symb metric start end_time w env rs]
    historical_if_returned [of self symb metric start end_time w m env rs]
  by blast

lemma historical_response_request:
  "fst (base_request example_client ep ps (constant_world historical_response)) =
     Inr (JObj [(''success'', JBool True),
                (''results'', JArr [JObj [(''timestamp'', JFloat (3236114333 / 2)),
                                          (''data'', JFloat (59 / 1000000))]])])"
  by (simp add: base_request_result constant_world_def historical_response_def check_response_def)

lemma repeated_response_request:
  "fst (base_request example_client ep ps (constant_world repeated_response)) =
     Inr (JObj [(''success'', JBool True),
                (''results'', JArr [JObj [(''timestamp'', JFloat (3236114333 / 2)),
                                          (''data'', JFloat (59 / 1000000))],
                                    JObj [(''timestamp'', JFloat (3236672347 / 2)),
                                          (''data'', JFloat (1 / 2500))],
                                    JObj [(''timestamp'', JFloat (3236114333 / 2)),
                                          (''data'', JFloat (1 / 2000))]])])"
  by (simp add: base_request_result constant_world_def repeated_response_def check_response_def)

theorem historical_mapping_witness:
  "fst (historical example_client ''AAPL'' ''RHI'' 1614556869 1619654469
          (constant_world historical_response)) =
     Inr (Some [(JFloat (3236114333 / 2), JFloat (59 / 1000000))]) \<and>
   (\<exists>m. fst (historical example_client ''AAPL'' ''RHI'' 1614556869 1619654469
               (constant_world repeated_response)) = Inr (Some m) \<and>
        m = [(JFloat (3236114333 / 2), JFloat (1 / 2000)),
             (JFloat (3236672347 / 2), JFloat (1 / 2500))] \<and>
        dict_lookup m (JFloat (3236114333 / 2)) = Some (JFloat (1 / 2000)) \<and>
        dict_lookup m (JFloat (3236672347 / 2)) = Some (JFloat (1 / 2500)) \<and>
        dict_lookup m (JInt 1618057166) = None \<and>
        distinct (map (key_of \<circ> fst) m))"
proof
  let ?rs = "[JObj [(''timestamp'', JFloat (3236114333 / 2)), (''data'', JFloat (59 / 1000000))]]"
  let ?env = "[(''success'', JBool True), (''results'', JArr ?rs)]"
  have "\<exists>m. fst (historical example_client ''AAPL'' ''RHI'' 1614556869 1619654469
               (constant_world historical_response)) = Inr (Some m) \<and>
         (\<forall>k. dict_lookup m k = last_entry_data ?rs k) \<and> distinct (map (key_of \<circ> fst) m)"
    using historical_mapping
      [where self = example_client and symb = "''AAPL''" and metric = "''RHI''"
         and start = 1614556869 and end_time = 1619654469
         and w = "constant_world historical_response" and env = ?env and rs = ?rs,
         THEN conjunct1]
    by (simp add: historical_response_request dict_get_def)
  moreover have "fst (historical example_client ''AAPL'' ''RHI'' 1614556869 1619654469
          (constant_world historical_response)) =
     Inr (Some [(JFloat (3236114333 / 2), JFloat (59 / 1000000))])"
    by (simp add: historical_def operation_result historical_response_request if_success_def
        history_of_def dict_get_def dict_setitem_def)
  ultimately show "fst (historical example_client ''AAPL'' ''RHI'' 1614556869 1619654469
          (constant_world historical_response)) =
     Inr (Some [(JFloat (3236114333 / 2), JFloat (59 / 1000000))])"
    by blast
next
  let ?rs = "[JObj [(''timestamp'', JFloat (3236114333 / 2)), (''data'', JFloat (59 / 1000000))],
              JObj [(''timestamp'', JFloat (3236672347 / 2)), (''data'', JFloat (1 / 2500))],
              JObj [(''timestamp'', JFloat (3236114333 / 2)), (''data'', JFloat (1 / 2000))]]"
  let ?env = "[(''success'', JBool True), (''results'', JArr ?rs)]"
  have "\<exists>m. fst (historical example_client ''AAPL'' ''RHI'' 1614556869 1619654469
               (constant_world repeated_response)) = Inr (Some m) \<and>
         (\<forall>k. dict_lookup m k = last_entry_data ?rs k) \<and> distinct (map (key_of \<circ> fst) m)"
    using historical_mapping
      [where self = example_client and symb = "''AAPL''" and metric = "''RHI''"
         and start = 1614556869 and end_time = 1619654469
         and w = "constant_world repeated_response" and env = ?env and rs = ?rs,
         THEN conjunct1]
    by (simp add: repeated_response_request dict_get_def)
  then obtain m where m: "fst (historical example_client ''AAPL'' ''RHI'' 1614556869 1619654469
               (constant_world repeated_response)) = Inr (Some m)"
    and l: "\<And>k. dict_lookup m k = last_entry_data ?rs k"
    and d: "distinct (map (key_of \<circ> fst) m)"
    by blast
  have v: "fst (historical example_client ''AAPL'' ''RHI'' 1614556869 1619654469
          (constant_world repeated_response)) =
     Inr (Some [(JFloat (3236114333 / 2), JFloat (1 / 2000)),
                (JFloat (3236672347 / 2), JFloat (1 / 2500))])"
    by (simp add: historical_def operation_result repeated_response_request if_success_def
        history_of_def dict_get_def dict_setitem_def)
  have "dict_lookup m (JFloat (3236114333 / 2)) = Some (JFloat (1 / 2000))"
    using l [of "JFloat (3236114333 / 2)"] by (simp add: dict_get_def)
  moreover have "dict_lookup m (JFloat (3236672347 / 2)) = Some (JFloat (1 / 2500))"
    using l [of "JFloat (3236672347 / 2)"] by (simp add: dict_get_def)
  moreover have "dict_lookup m (JInt 1618057166) = None"
    using l [of "JInt 1618057166"] by (simp add: dict_get_def)
  moreover from m v have "m = [(JFloat (3236114333 / 2), JFloat (1 / 2000)),
             (JFloat (3236672347 / 2), JFloat (1 / 2500))]"
    by simp
  ultimately show "\<exists>m. fst (historical example_client ''AAPL'' ''RHI'' 1614556869 1619654469
               (constant_world repeated_response)) = Inr (Some m) \<and>
        m = [(JFloat (3236114333 / 2), JFloat (1 / 2000)),
             (JFloat (3236672347 / 2), JFloat (1 / 2500))] \<and>
        dict_lookup m (JFloat (3236114333 / 2)) = Some (JFloat (1 / 2000)) \<and>
        dict_lookup m (JFloat (3236672347 / 2)) = Some (JFloat (1 / 2500)) \<and>
        dict_lookup m (JInt 1618057166) = None \<and>
        distinct (map (key_of \<circ> fst) m)"
    using m d by blast
qed

end
